theory Spec2Isabelle
  imports Complex_Main "HOL-Library.Sublist"
begin

section \<open>JavaScript values used by the console and the client\<close>

text \<open>
  A JavaScript string is a sequence of UTF-16 code units; a code unit is modelled by its
  number. \<open>js\<close> writes an ASCII literal of the source as such a sequence. Numbers that
  carry scores are modelled as reals: the comparisons of the source are exact on finite
  doubles, and a decimal literal stands for the decimal it writes.
\<close>

type_synonym jsstring = "nat list"

definition js :: "string \<Rightarrow> jsstring" where
  "js s = map of_char s"

text \<open>
  \<open>String.prototype.trim\<close> removes WhiteSpace and LineTerminator code points from both
  ends: TAB, LF, VT, FF, CR, SPACE, NBSP, the space separators U+1680, U+2000..U+200A,
  U+202F, U+205F, U+3000, the separators U+2028 and U+2029, and U+FEFF.
\<close>

definition isWhiteSpace :: "nat \<Rightarrow> bool" where
  "isWhiteSpace c = (c \<in> set [9, 10, 11, 12, 13, 32, 160, 5760,
     8192, 8193, 8194, 8195, 8196, 8197, 8198, 8199, 8200, 8201, 8202,
     8232, 8233, 8239, 8287, 12288, 65279])"

definition trim :: "jsstring \<Rightarrow> jsstring" where
  "trim s = rev (dropWhile isWhiteSpace (rev (dropWhile isWhiteSpace s)))"

text \<open>The decimal digits of a non-negative integer, as a template literal prints it.\<close>

function decimal :: "nat \<Rightarrow> jsstring" where
  "decimal n = (if n < 10 then [48 + n] else decimal (n div 10) @ [48 + n mod 10])"
  by pat_completeness auto
termination
  by (relation "measure id") auto

declare decimal.simps [simp del]

text \<open>
  A value that a \<open>throw\<close> or a rejected promise carries: an \<open>Error\<close> object with its
  message, or any other value (\<open>e instanceof Error\<close> is false for it).
\<close>

datatype thrown = Error jsstring | NonError

section \<open>The console page: constants and the risk badge (the console source)\<close>

definition LANGUAGES :: "(jsstring \<times> jsstring) list" where
  "LANGUAGES =
    [(js ''en'', js ''English''),
     (js ''ja'', js ''Japanese''),
     (js ''de'', js ''German''),
     (js ''fr'', js ''French'')]"

definition TEMPLATES :: "(jsstring \<times> jsstring) list" where
  "TEMPLATES =
    [(js ''nda'', js ''Non-Disclosure Agreement (NDA)''),
     (js ''sla'', js ''Service Level Agreement (SLA)''),
     (js ''dpa'', js ''Data Processing Agreement (DPA)''),
     (js ''tos'', js ''Terms of Service (ToS)''),
     (js ''privacy'', js ''Privacy Policy''),
     (js ''employment'', js ''Employment Agreement''),
     (js ''license'', js ''Software License Agreement'')]"

datatype risk_level = Low | Medium | High | Critical

text \<open>
  \<open>RiskBadge\<close> derives the level it prints from the score alone:
  \<^verbatim>\<open>score >= 0.7 ? "critical" : score >= 0.5 ? "high" : score >= 0.3 ? "medium" : "low"\<close>.
  The rest of the component is markup around that level.
\<close>

definition RiskBadge_level :: "real \<Rightarrow> risk_level" where
  "RiskBadge_level score =
    (if score \<ge> 0.7 then Critical
     else if score \<ge> 0.5 then High
     else if score \<ge> 0.3 then Medium
     else Low)"

section \<open>The HTTP client (frontend/lib/api/client.ts)\<close>

datatype http_method = GET | POST

text \<open>
  The three request types. The body of a request is kept as the structured value;
  \<open>JSON.stringify\<close> is not modelled.
\<close>

datatype request_body =
    AnalyzeRequest jsstring jsstring
  | CompileRequest jsstring "jsstring \<rightharpoonup> jsstring"
  | RiskRequest jsstring

record http_request =
  req_method :: http_method
  req_url :: jsstring
  req_headers :: "(jsstring \<times> jsstring) list"
  req_body :: "request_body option"

text \<open>
  What the helper reads of a \<open>Response\<close>: \<open>ok\<close>, \<open>status\<close>, \<open>statusText\<close>, and what the
  promises of \<open>text()\<close> and \<open>json()\<close> settle to (\<open>Inl\<close>: rejected with that value). The
  parsed body has the type \<open>'j\<close>: the cast \<open>as Promise<T>\<close> checks nothing at run time.
\<close>

record 'j response =
  res_ok :: bool
  res_status :: nat
  res_statusText :: jsstring
  res_text :: "thrown + jsstring"
  res_json :: "thrown + 'j"

text \<open>
  The environment of the page: the variable \<open>NEXT_PUBLIC_LEGAL_API_URL\<close>, how the network
  answers a request (\<open>Inl\<close>: \<open>fetch\<close> rejects), and the requests issued so far.
\<close>

record 'j env =
  NEXT_PUBLIC_LEGAL_API_URL :: "jsstring option"
  respond :: "http_request \<Rightarrow> thrown + 'j response"
  issued :: "http_request list"

definition BASE_URL :: "'j env \<Rightarrow> jsstring" where
  "BASE_URL e =
    (case NEXT_PUBLIC_LEGAL_API_URL e of
       None \<Rightarrow> js ''http://localhost:8081''
     | Some u \<Rightarrow> u)"

definition fetch :: "http_request \<Rightarrow> 'j env \<Rightarrow> (thrown + 'j response) \<times> 'j env" where
  "fetch rq e = (respond e rq, e\<lparr>issued := issued e @ [rq]\<rparr>)"

definition request ::
  "http_method \<Rightarrow> jsstring \<Rightarrow> request_body option \<Rightarrow> 'j env \<Rightarrow> (thrown + 'j) \<times> 'j env" where
  "request method path body e =
    (case fetch \<lparr>req_method = method, req_url = BASE_URL e @ path,
                 req_headers = [(js ''Content-Type'', js ''application/json'')],
                 req_body = body\<rparr> e of
       (Inl err, e') \<Rightarrow> (Inl err, e')
     | (Inr res, e') \<Rightarrow>
         if \<not> res_ok res then
           (let text = (case res_text res of Inl _ \<Rightarrow> [] | Inr t \<Rightarrow> t) in
            (Inl (Error (decimal (res_status res) @ js '' '' @ res_statusText res @
                         (if text \<noteq> [] then js '': '' @ text else []))), e'))
         else (res_json res, e'))"

text \<open>The request object that \<open>request\<close> hands to \<open>fetch\<close>.\<close>

definition built_request ::
  "http_method \<Rightarrow> jsstring \<Rightarrow> request_body option \<Rightarrow> 'j env \<Rightarrow> http_request" where
  "built_request method path body e =
    \<lparr>req_method = method, req_url = BASE_URL e @ path,
     req_headers = [(js ''Content-Type'', js ''application/json'')],
     req_body = body\<rparr>"

definition legalClient_analyze :: "request_body \<Rightarrow> 'j env \<Rightarrow> (thrown + 'j) \<times> 'j env" where
  "legalClient_analyze req = request POST (js ''/api/v1/legal/analyze'') (Some req)"

definition legalClient_compile :: "request_body \<Rightarrow> 'j env \<Rightarrow> (thrown + 'j) \<times> 'j env" where
  "legalClient_compile req = request POST (js ''/api/v1/legal/compile'') (Some req)"

definition legalClient_templates :: "'j env \<Rightarrow> (thrown + 'j) \<times> 'j env" where
  "legalClient_templates = request GET (js ''/api/v1/legal/templates'') None"

definition legalClient_riskScore :: "request_body \<Rightarrow> 'j env \<Rightarrow> (thrown + 'j) \<times> 'j env" where
  "legalClient_riskScore req = request POST (js ''/api/v1/legal/risk-score'') (Some req)"

section \<open>The store (frontend/lib/hooks/use-store.ts)\<close>

datatype result_type = analyze_type | compile_type | risk_type

record 'j LegalResult =
  result_type :: result_type
  result_data :: 'j

record 'j LegalState =
  document :: jsstring
  language :: jsstring
  templateId :: jsstring
  result :: "'j LegalResult option"
  loading :: bool

definition initialState :: "'j LegalState" where
  "initialState =
    \<lparr>document = [], language = js ''en'', templateId = [], result = None, loading = False\<rparr>"

definition setDocument :: "jsstring \<Rightarrow> 'j LegalState \<Rightarrow> 'j LegalState" where
  "setDocument d s = s\<lparr>document := d\<rparr>"

definition setLanguage :: "jsstring \<Rightarrow> 'j LegalState \<Rightarrow> 'j LegalState" where
  "setLanguage l s = s\<lparr>language := l\<rparr>"

definition setTemplateId :: "jsstring \<Rightarrow> 'j LegalState \<Rightarrow> 'j LegalState" where
  "setTemplateId t s = s\<lparr>templateId := t\<rparr>"

definition setResult :: "'j LegalResult option \<Rightarrow> 'j LegalState \<Rightarrow> 'j LegalState" where
  "setResult r s = s\<lparr>result := r\<rparr>"

definition setLoading :: "bool \<Rightarrow> 'j LegalState \<Rightarrow> 'j LegalState" where
  "setLoading b s = s\<lparr>loading := b\<rparr>"

definition reset :: "'j LegalState \<Rightarrow> 'j LegalState" where
  "reset s = initialState"

section \<open>The console page: state and action handlers\<close>

datatype tab = analyze_tab | compile_tab

text \<open>
  The state a handler sees: the store, and the two \<open>useState\<close> cells of the page
  (\<open>error\<close> is \<open>string | null\<close>).
\<close>

record 'j page =
  store :: "'j LegalState"
  activeTab :: tab
  error :: "jsstring option"

text \<open>
  The \<open>catch\<close> clause of a handler: \<open>e instanceof Error ? e.message : fallback\<close>.
\<close>

definition failure_message :: "jsstring \<Rightarrow> thrown \<Rightarrow> jsstring" where
  "failure_message fallback e = (case e of Error m \<Rightarrow> m | NonError \<Rightarrow> fallback)"

text \<open>
  Each handler: the guard; \<open>setLoading(true)\<close>; \<open>setError(null)\<close>; the awaited client call
  inside \<open>try\<close> with \<open>setResult\<close> after it; \<open>setError\<close> in \<open>catch\<close>;
  \<open>setLoading(false)\<close> in \<open>finally\<close>. A handler returns the page state and the
  environment, whose \<open>issued\<close> field holds every request sent.
\<close>

definition handleAnalyze :: "'j page \<Rightarrow> 'j env \<Rightarrow> 'j page \<times> 'j env" where
  "handleAnalyze p e =
    (if trim (document (store p)) = [] then (p, e)
     else
       let p1 = p\<lparr>store := setLoading True (store p)\<rparr>;
           p2 = p1\<lparr>error := None\<rparr>;
           (r, e') = legalClient_analyze
                       (AnalyzeRequest (document (store p)) (language (store p))) e;
           p3 = (case r of
                   Inr res \<Rightarrow>
                     p2\<lparr>store := setResult
                        (Some \<lparr>result_type = analyze_type, result_data = res\<rparr>) (store p2)\<rparr>
                 | Inl ex \<Rightarrow>
                     p2\<lparr>error := Some (failure_message (js ''Analysis failed.'') ex)\<rparr>)
       in (p3\<lparr>store := setLoading False (store p3)\<rparr>, e'))"

definition handleCompile :: "'j page \<Rightarrow> 'j env \<Rightarrow> 'j page \<times> 'j env" where
  "handleCompile p e =
    (if templateId (store p) = [] then (p, e)
     else
       let p1 = p\<lparr>store := setLoading True (store p)\<rparr>;
           p2 = p1\<lparr>error := None\<rparr>;
           (r, e') = legalClient_compile
                       (CompileRequest (templateId (store p)) Map.empty) e;
           p3 = (case r of
                   Inr res \<Rightarrow>
                     p2\<lparr>store := setResult
                        (Some \<lparr>result_type = compile_type, result_data = res\<rparr>) (store p2)\<rparr>
                 | Inl ex \<Rightarrow>
                     p2\<lparr>error := Some (failure_message (js ''Compilation failed.'') ex)\<rparr>)
       in (p3\<lparr>store := setLoading False (store p3)\<rparr>, e'))"

definition handleRiskScore :: "'j page \<Rightarrow> 'j env \<Rightarrow> 'j page \<times> 'j env" where
  "handleRiskScore p e =
    (if trim (document (store p)) = [] then (p, e)
     else
       let p1 = p\<lparr>store := setLoading True (store p)\<rparr>;
           p2 = p1\<lparr>error := None\<rparr>;
           (r, e') = legalClient_riskScore (RiskRequest (document (store p))) e;
           p3 = (case r of
                   Inr res \<Rightarrow>
                     p2\<lparr>store := setResult
                        (Some \<lparr>result_type = risk_type, result_data = res\<rparr>) (store p2)\<rparr>
                 | Inl ex \<Rightarrow>
                     p2\<lparr>error := Some (failure_message (js ''Risk scoring failed.'') ex)\<rparr>)
       in (p3\<lparr>store := setLoading False (store p3)\<rparr>, e'))"

text \<open>
  What a handler leaves behind once the awaited call \<open>r\<close> has settled, from the page \<open>p\<close>
  it started in to the page \<open>p'\<close> it ends in: \<open>loading\<close> is false; after a throw the stored
  result is the old one and \<open>error\<close> holds the message; after a return the stored result is
  the new one and \<open>error\<close> is null.
\<close>

definition settled ::
  "result_type \<Rightarrow> jsstring \<Rightarrow> (thrown + 'j) \<Rightarrow> 'j page \<Rightarrow> 'j page \<Rightarrow> bool" where
  "settled ty fallback r p p' =
    (loading (store p') = False \<and>
     (case r of
        Inl ex \<Rightarrow> result (store p') = result (store p) \<and>
                  error p' = Some (failure_message fallback ex)
      | Inr res \<Rightarrow> result (store p') = Some \<lparr>result_type = ty, result_data = res\<rparr> \<and>
                   error p' = None))"

section \<open>The storage schema (database/migrations/006_domain.sql)\<close>

text \<open>
  The three tables of the migration, a row as a record with one field per column; a column
  without \<open>not null\<close> is an option. \<open>auth.users\<close> belongs to another schema: only the
  identifiers of its rows are kept.
\<close>

type_synonym uuid = nat

record documents_row =
  doc_id :: uuid
  doc_user_id :: "uuid option"
  doc_title :: string
  doc_type :: string
  doc_content_hash :: "string option"
  doc_word_count :: "int option"
  doc_page_count :: "int option"
  doc_language :: "string option"
  doc_created_at :: "int option"

record analysis_results_row =
  ar_id :: uuid
  ar_document_id :: "uuid option"
  ar_analysis_type :: string
  ar_risk_level :: "string option"
  ar_issues_found :: "int option"
  ar_results :: "string option"
  ar_created_at :: "int option"

record clauses_row =
  cl_id :: uuid
  cl_document_id :: "uuid option"
  cl_clause_type :: string
  cl_clause_text :: string
  cl_risk_score :: "real option"
  cl_position_start :: "int option"
  cl_position_end :: "int option"

record database =
  auth_users :: "uuid list"
  documents :: "documents_row list"
  analysis_results :: "analysis_results_row list"
  clauses :: "clauses_row list"

text \<open>
  \<open>document_id uuid references public.documents(id) on delete cascade\<close>: a row whose
  \<open>document_id\<close> is one of the deleted identifiers goes with the document; a row whose
  \<open>document_id\<close> is null references nothing and stays.
\<close>

definition cascades :: "uuid list \<Rightarrow> uuid option \<Rightarrow> bool" where
  "cascades deleted ref = (case ref of None \<Rightarrow> False | Some d \<Rightarrow> d \<in> set deleted)"

text \<open>\<open>delete from public.documents where P\<close>, with the two cascades of the schema.\<close>

definition delete_documents :: "(documents_row \<Rightarrow> bool) \<Rightarrow> database \<Rightarrow> database" where
  "delete_documents P db =
    (let deleted = map doc_id (filter P (documents db)) in
     db\<lparr>documents := filter (\<lambda>r. \<not> P r) (documents db),
        analysis_results :=
          filter (\<lambda>r. \<not> cascades deleted (ar_document_id r)) (analysis_results db),
        clauses := filter (\<lambda>r. \<not> cascades deleted (cl_document_id r)) (clauses db)\<rparr>)"

definition delete_document :: "uuid \<Rightarrow> database \<Rightarrow> database" where
  "delete_document d = delete_documents (\<lambda>r. doc_id r = d)"

text \<open>
  \<open>user_id uuid references auth.users(id) on delete cascade\<close>: deleting a user deletes the
  user's documents, which cascades further.
\<close>

definition delete_user :: "uuid \<Rightarrow> database \<Rightarrow> database" where
  "delete_user u db =
    (delete_documents (\<lambda>r. doc_user_id r = Some u) db)\<lparr>auth_users := removeAll u (auth_users db)\<rparr>"

text \<open>
  Referential integrity of the two foreign keys into \<open>documents\<close>: every non-null
  \<open>document_id\<close> is the \<open>id\<close> of a document row.
\<close>

definition resolves :: "database \<Rightarrow> uuid option \<Rightarrow> bool" where
  "resolves db ref = (case ref of None \<Rightarrow> True | Some d \<Rightarrow> d \<in> doc_id ` set (documents db))"

definition references_resolve :: "database \<Rightarrow> bool" where
  "references_resolve db =
    ((\<forall>r \<in> set (analysis_results db). resolves db (ar_document_id r)) \<and>
     (\<forall>r \<in> set (clauses db). resolves db (cl_document_id r)))"

section \<open>The engine, modelled from the specification\<close>

text \<open>
  The four operations \<open>analyze\<close>, \<open>riskScore\<close>, \<open>compile\<close> and \<open>listTemplates\<close> are served
  by the engine behind the HTTP surface. Its sources are not among the files of this
  development: what follows is written from the specification, section by section, and
  every rule set and coefficient that the specification leaves to configuration is a
  field of the record \<open>configuration\<close>.
\<close>

text \<open>
  Modelled from the spec: the error kinds of section 7 (the engine that raises them is
  missing).
\<close>

datatype engine_error = EmptyDocument | UnsupportedLanguage | TemplateNotFound | MalformedInput

text \<open>
  Modelled from the spec: the supported language codes of section 4.1 (the Language
  Profile Registry is missing).
\<close>

definition supported_languages :: "jsstring list" where
  "supported_languages = [js ''en'', js ''ja'', js ''de'', js ''fr'']"

text \<open>
  Modelled from the spec: the level mapping of section 4.3, in the words of the
  specification (the scorer is missing): below 0.3 low, [0.3, 0.5) medium, [0.5, 0.7)
  high, from 0.7 critical.
\<close>

definition level :: "real \<Rightarrow> risk_level" where
  "level s =
    (if s < 0.3 then Low
     else if s < 0.5 then Medium
     else if s < 0.7 then High
     else Critical)"

text \<open>
  Modelled from the spec: the entities of section 3 (the engine that builds them is
  missing). The results have the fields of the response interfaces of
  frontend/lib/api/client.ts; a clause has the score and the span of section 3 beside the
  four fields of the interface \<open>Clause\<close>.
\<close>

record clause =
  clause_id :: jsstring
  clause_text :: jsstring
  clause_type :: jsstring
  clause_risk_level :: risk_level
  clause_risk_score :: real
  clause_span :: "nat \<times> nat"

record issue =
  issue_id :: jsstring
  issue_description :: jsstring
  issue_severity :: risk_level
  issue_location :: jsstring

record AnalysisResult =
  risk_score :: real
  analysis_clauses :: "clause list"
  analysis_issues :: "issue list"
  analysis_language :: jsstring
  word_count :: nat

datatype factor =
  Liability | Indemnification | IP_Assignment | Termination | Confidentiality | Jurisdiction

record RiskFactor =
  rf_factor :: factor
  rf_weight :: real
  rf_score :: real
  rf_description :: jsstring

record RiskScoreResult =
  overall_score :: real
  overall_risk_level :: risk_level
  risk_factors :: "RiskFactor list"
  recommendations :: "jsstring list"

record template =
  template_id :: jsstring
  template_name :: jsstring
  template_description :: jsstring
  template_body :: jsstring
  required_variables :: "jsstring list"
  language_support :: "jsstring list"

record TemplateInfo =
  info_id :: jsstring
  info_name :: jsstring
  info_description :: jsstring
  info_required_variables :: "jsstring list"
  info_language_support :: "jsstring list"

record TemplatesResponse =
  templates :: "TemplateInfo list"
  count :: nat

record CompileResult =
  compiled_template_id :: jsstring
  compiled_document :: jsstring
  variables_applied :: nat
  missing_variables :: "jsstring list"

text \<open>
  Modelled from the spec: the fixed factors of section 4.5, and a table of their weights
  as sections 3 and 4.5 admit it: one fixed weight per factor, the six summing to 1.0
  within the tolerance 1e-6. The values are configuration and are missing; a table whose
  weights do not sum to 1.0 is not a weight table.
\<close>

definition all_factors :: "factor list" where
  "all_factors =
    [Liability, Indemnification, IP_Assignment, Termination, Confidentiality, Jurisdiction]"

typedef weights = "{w :: factor \<Rightarrow> real. \<bar>sum_list (map w all_factors) - 1\<bar> \<le> 1 / 1000000}"
  by (intro exI [of _ "\<lambda>f. if f = Liability then 1 else 0"]) (simp add: all_factors_def)

text \<open>
  Modelled from the spec: what sections 4.1 to 4.6 and 9 leave to configuration and to
  the language profiles (all missing): normalisation, language detection for the
  operation that takes no language, the boundary rules, the clause-type rules, the base
  weight of a clause type and the contribution of the local signals, the issue rules, the
  bucket and the weight of each factor, the recommendation texts and their trigger, and
  the contents of each template.
\<close>

record configuration =
  normalize :: "jsstring \<Rightarrow> jsstring"
  detect_language :: "jsstring \<Rightarrow> jsstring"
  boundaries :: "jsstring \<Rightarrow> jsstring \<Rightarrow> (jsstring \<times> nat \<times> nat) list"
  classify :: "jsstring \<Rightarrow> jsstring \<Rightarrow> jsstring"
  base_weight :: "jsstring \<Rightarrow> real"
  local_signals :: "jsstring \<Rightarrow> jsstring \<Rightarrow> real"
  issue_rules :: "jsstring \<Rightarrow> clause list \<Rightarrow> (jsstring \<times> risk_level \<times> jsstring) list"
  factor_of :: "jsstring \<Rightarrow> factor"
  factor_weights :: weights
  factor_text :: "factor \<Rightarrow> jsstring"
  recommendation_for :: "factor \<Rightarrow> jsstring"
  trigger :: real
  template_of :: "jsstring \<Rightarrow> template"

subsection \<open>Preprocessor, segmenter, classifier and scorer\<close>

text \<open>
  Modelled from the spec: \<open>word_count\<close> of section 4.1, the number of whitespace-delimited
  tokens (the preprocessor is missing). The flag says whether the previous code unit was
  inside a token.
\<close>

fun count_words :: "bool \<Rightarrow> jsstring \<Rightarrow> nat" where
  "count_words inside [] = 0"
| "count_words inside (c # cs) =
    (if isWhiteSpace c then count_words False cs
     else (if inside then 0 else 1) + count_words True cs)"

text \<open>
  Modelled from the spec: sequential identifiers \<open>clause-001\<close>, \<open>issue-001\<close> of section 3,
  by order of appearance.
\<close>

definition pad3 :: "jsstring \<Rightarrow> jsstring" where
  "pad3 s = replicate (3 - length s) 48 @ s"

definition ordinal_id :: "string \<Rightarrow> nat \<Rightarrow> jsstring" where
  "ordinal_id stem i = js stem @ pad3 (decimal (Suc i))"

text \<open>
  Modelled from the spec: section 4.2, degenerate inputs still yield at least one clause
  spanning the whole text (the segmenter is missing).
\<close>

definition segments :: "configuration \<Rightarrow> jsstring \<Rightarrow> jsstring \<Rightarrow> (jsstring \<times> nat \<times> nat) list" where
  "segments cfg lang text =
    (case boundaries cfg lang text of
       [] \<Rightarrow> [(text, 0, length text)]
     | s # ss \<Rightarrow> s # ss)"

text \<open>
  Modelled from the spec: section 4.3, the per-clause score is the base weight of the
  clause type combined with the local signals, clamped to [0, 1]; the level of a clause is
  \<open>level\<close> of its score (the classifier and scorer are missing).
\<close>

definition clamp01 :: "real \<Rightarrow> real" where
  "clamp01 x = min 1 (max 0 x)"

definition score_clause :: "configuration \<Rightarrow> jsstring \<Rightarrow> jsstring \<Rightarrow> real" where
  "score_clause cfg lang t = clamp01 (base_weight cfg (classify cfg lang t) + local_signals cfg lang t)"

definition make_clause :: "configuration \<Rightarrow> jsstring \<Rightarrow> nat \<times> jsstring \<times> nat \<times> nat \<Rightarrow> clause" where
  "make_clause cfg lang seg =
    (case seg of (i, t, sp) \<Rightarrow>
       \<lparr>clause_id = ordinal_id ''clause-'' i,
        clause_text = t,
        clause_type = classify cfg lang t,
        clause_risk_level = level (score_clause cfg lang t),
        clause_risk_score = score_clause cfg lang t,
        clause_span = sp\<rparr>)"

definition score_clauses :: "configuration \<Rightarrow> jsstring \<Rightarrow> jsstring \<Rightarrow> clause list" where
  "score_clauses cfg lang text = map (make_clause cfg lang) (enumerate 0 (segments cfg lang text))"

text \<open>
  Modelled from the spec: section 4.4, one issue per match of the issue rules, with the
  severity the rule assigns (the issue detector is missing).
\<close>

definition make_issue :: "nat \<times> jsstring \<times> risk_level \<times> jsstring \<Rightarrow> issue" where
  "make_issue found =
    (case found of (i, description, severity, location) \<Rightarrow>
       \<lparr>issue_id = ordinal_id ''issue-'' i,
        issue_description = description,
        issue_severity = severity,
        issue_location = location\<rparr>)"

subsection \<open>Risk aggregator\<close>

text \<open>
  Modelled from the spec: section 4.3, the document-level score is the maximum of (a) the
  length-weighted average of the clause scores and (b) a floor raised by the presence of
  any critical clause (the aggregator is missing). The floor is placed at the critical
  threshold 0.7; the average of clauses of total length 0 is taken to be 0.
\<close>

definition weighted_average :: "clause list \<Rightarrow> real" where
  "weighted_average cs =
    (let total = sum_list (map (\<lambda>c. real (length (clause_text c))) cs) in
     if total = 0 then 0
     else sum_list (map (\<lambda>c. real (length (clause_text c)) * clause_risk_score c) cs) / total)"

definition critical_floor :: "clause list \<Rightarrow> real" where
  "critical_floor cs = (if \<exists>c \<in> set cs. clause_risk_level c = Critical then 0.7 else 0)"

definition document_risk :: "clause list \<Rightarrow> real" where
  "document_risk cs = max (weighted_average cs) (critical_floor cs)"

text \<open>
  Modelled from the spec: section 4.5, the fixed factors; the score of a factor is the
  maximum clause score among the clauses bucketed into it, 0 when there is none; the
  overall score is the sum of weight times score; recommendations are the texts of the
  factors whose score reaches the trigger, by descending weight, closed by the fixed
  disclaimer.
\<close>

definition factor_weight :: "configuration \<Rightarrow> factor \<Rightarrow> real" where
  "factor_weight cfg = Rep_weights (factor_weights cfg)"

fun maximum :: "real list \<Rightarrow> real" where
  "maximum [] = 0"
| "maximum [x] = x"
| "maximum (x # y # ys) = max x (maximum (y # ys))"

definition factor_score :: "configuration \<Rightarrow> clause list \<Rightarrow> factor \<Rightarrow> real" where
  "factor_score cfg cs f =
    maximum (map clause_risk_score (filter (\<lambda>c. factor_of cfg (clause_type c) = f) cs))"

definition make_factor :: "configuration \<Rightarrow> clause list \<Rightarrow> factor \<Rightarrow> RiskFactor" where
  "make_factor cfg cs f =
    \<lparr>rf_factor = f,
     rf_weight = factor_weight cfg f,
     rf_score = factor_score cfg cs f,
     rf_description = factor_text cfg f\<rparr>"

definition closing_disclaimer :: jsstring where
  "closing_disclaimer = js ''Engage qualified legal counsel before signing.''"

definition recommend :: "configuration \<Rightarrow> RiskFactor list \<Rightarrow> jsstring list" where
  "recommend cfg fs =
    map (\<lambda>f. recommendation_for cfg (rf_factor f))
      (sort_key (\<lambda>f. - rf_weight f) (filter (\<lambda>f. trigger cfg \<le> rf_score f) fs))
    @ [closing_disclaimer]"

subsection \<open>Engine facade: analyze and riskScore\<close>

text \<open>
  Modelled from the spec: section 4.1 and the table of section 6 (the facade is missing).
  The two checks are taken in the order in which section 4.1 states them: the language
  code first, then the empty or whitespace-only document.
\<close>

definition analyze :: "configuration \<Rightarrow> jsstring \<Rightarrow> jsstring \<Rightarrow> engine_error + AnalysisResult" where
  "analyze cfg doc lang =
    (if lang \<notin> set supported_languages then Inl UnsupportedLanguage
     else if trim doc = [] then Inl EmptyDocument
     else
       let text = normalize cfg doc;
           cs = score_clauses cfg lang text
       in Inr \<lparr>risk_score = document_risk cs,
               analysis_clauses = cs,
               analysis_issues = map make_issue (enumerate 0 (issue_rules cfg lang cs)),
               analysis_language = lang,
               word_count = count_words False text\<rparr>)"

definition riskScore :: "configuration \<Rightarrow> jsstring \<Rightarrow> engine_error + RiskScoreResult" where
  "riskScore cfg doc =
    (if trim doc = [] then Inl EmptyDocument
     else
       let text = normalize cfg doc;
           cs = score_clauses cfg (detect_language cfg text) text;
           fs = map (make_factor cfg cs) all_factors;
           overall = sum_list (map (\<lambda>f. rf_weight f * rf_score f) fs)
       in Inr \<lparr>overall_score = overall,
               overall_risk_level = level overall,
               risk_factors = fs,
               recommendations = recommend cfg fs\<rparr>)"

subsection \<open>Template registry and compiler\<close>

text \<open>
  Modelled from the spec: the catalog of section 4.6 with the seven identifiers of
  section 8, in that order (the registry is missing); the contents of a template come
  from the configuration.
\<close>

definition template_ids :: "jsstring list" where
  "template_ids =
    [js ''nda'', js ''sla'', js ''dpa'', js ''tos'', js ''privacy'', js ''employment'',
     js ''license'']"

definition registry :: "configuration \<Rightarrow> template list" where
  "registry cfg = map (\<lambda>i. (template_of cfg i)\<lparr>template_id := i\<rparr>) template_ids"

definition lookup_template :: "configuration \<Rightarrow> jsstring \<Rightarrow> engine_error + template" where
  "lookup_template cfg i =
    (case find (\<lambda>t. template_id t = i) (registry cfg) of
       None \<Rightarrow> Inl TemplateNotFound
     | Some t \<Rightarrow> Inr t)"

definition template_info :: "template \<Rightarrow> TemplateInfo" where
  "template_info t =
    \<lparr>info_id = template_id t,
     info_name = template_name t,
     info_description = template_description t,
     info_required_variables = required_variables t,
     info_language_support = language_support t\<rparr>"

definition listTemplates :: "configuration \<Rightarrow> TemplatesResponse" where
  "listTemplates cfg =
    \<lparr>templates = map template_info (registry cfg), count = length (registry cfg)\<rparr>"

text \<open>
  Modelled from the spec: the placeholder syntax \<open>{{variable_name}}\<close> of section 4.6 (the
  compiler is missing). A placeholder is two opening braces, a non-empty run of letters,
  digits and underscores, and two closing braces; every other code unit is literal text.
\<close>

datatype piece = Literal nat | Placeholder jsstring

definition is_name_char :: "nat \<Rightarrow> bool" where
  "is_name_char c = ((48 \<le> c \<and> c \<le> 57) \<or> (65 \<le> c \<and> c \<le> 90) \<or> (97 \<le> c \<and> c \<le> 122) \<or> c = 95)"

function scan :: "jsstring \<Rightarrow> piece list" where
  "scan [] = []"
| "scan (c # cs) =
    (if c = 123 \<and> take 1 cs = [123] \<and>
        takeWhile is_name_char (drop 1 cs) \<noteq> [] \<and>
        take 2 (dropWhile is_name_char (drop 1 cs)) = [125, 125]
     then Placeholder (takeWhile is_name_char (drop 1 cs))
            # scan (drop 2 (dropWhile is_name_char (drop 1 cs)))
     else Literal c # scan cs)"
  by pat_completeness auto
termination
proof (relation "measure length", goal_cases)
  case 1
  show ?case by simp
next
  case (2 c cs)
  have "length (dropWhile is_name_char (drop 1 cs)) \<le> length cs"
    using length_dropWhile_le [of is_name_char "drop 1 cs"] by simp
  then show ?case by simp
next
  case (3 c cs)
  show ?case by simp
qed

declare scan.simps [simp del]

text \<open>
  Modelled from the spec: single-pass literal substitution; a placeholder whose name is
  not a key of the variable map is written back verbatim.
\<close>

fun render :: "(jsstring \<rightharpoonup> jsstring) \<Rightarrow> piece \<Rightarrow> jsstring" where
  "render vars (Literal c) = [c]"
| "render vars (Placeholder n) =
    (case vars n of
       Some v \<Rightarrow> v
     | None \<Rightarrow> [123, 123] @ n @ [125, 125])"

definition substitute :: "(jsstring \<rightharpoonup> jsstring) \<Rightarrow> jsstring \<Rightarrow> jsstring" where
  "substitute vars body = concat (map (render vars) (scan body))"

fun placeholders :: "piece list \<Rightarrow> jsstring list" where
  "placeholders [] = []"
| "placeholders (Literal c # ps) = placeholders ps"
| "placeholders (Placeholder n # ps) = n # placeholders ps"

text \<open>
  Modelled from the spec: the contract of section 4.6. \<open>variables_applied\<close> counts the
  placeholders present in both the template and the input map; \<open>missing_variables\<close> lists
  the declared required variables absent from the input map, in declaration order.
\<close>

definition compile ::
  "configuration \<Rightarrow> jsstring \<Rightarrow> (jsstring \<rightharpoonup> jsstring) \<Rightarrow> engine_error + CompileResult" where
  "compile cfg i vars =
    (case lookup_template cfg i of
       Inl err \<Rightarrow> Inl err
     | Inr t \<Rightarrow>
         Inr \<lparr>compiled_template_id = template_id t,
              compiled_document = substitute vars (template_body t),
              variables_applied =
                length (filter (\<lambda>n. vars n \<noteq> None) (remdups (placeholders (scan (template_body t))))),
              missing_variables = filter (\<lambda>v. vars v = None) (required_variables t)\<rparr>)"

text \<open>
  Modelled from the spec: what section 4.6 asks of the compiled document, stated without
  the scanner, on a template written as a sequence of parts: plain text stays, a variable
  found in the map is replaced by its value, and a variable not found in the map stays as
  its placeholder. \<open>source\<close> is the body such a template has; \<open>filled\<close> is the document
  it must compile to. In a well-formed template the text has no opening brace and a
  variable name is a non-empty run of letters, digits and underscores.
\<close>

datatype part = Text jsstring | Variable jsstring

fun source :: "part list \<Rightarrow> jsstring" where
  "source [] = []"
| "source (Text t # ps) = t @ source ps"
| "source (Variable n # ps) = [123, 123] @ n @ [125, 125] @ source ps"

fun filled :: "(jsstring \<rightharpoonup> jsstring) \<Rightarrow> part list \<Rightarrow> jsstring" where
  "filled vars [] = []"
| "filled vars (Text t # ps) = t @ filled vars ps"
| "filled vars (Variable n # ps) =
    (case vars n of
       Some v \<Rightarrow> v
     | None \<Rightarrow> [123, 123] @ n @ [125, 125]) @ filled vars ps"

fun variables :: "part list \<Rightarrow> jsstring list" where
  "variables [] = []"
| "variables (Text t # ps) = variables ps"
| "variables (Variable n # ps) = n # variables ps"

fun well_formed :: "part list \<Rightarrow> bool" where
  "well_formed [] = True"
| "well_formed (Text t # ps) = (123 \<notin> set t \<and> well_formed ps)"
| "well_formed (Variable n # ps) = (n \<noteq> [] \<and> list_all is_name_char n \<and> well_formed ps)"

text \<open>
  Modelled from the spec: the pieces a scanner has to find in the source of such a
  template, one literal per code unit of text and one placeholder per variable.
\<close>

fun pieces :: "part list \<Rightarrow> piece list" where
  "pieces [] = []"
| "pieces (Text t # ps) = map Literal t @ pieces ps"
| "pieces (Variable n # ps) = Placeholder n # pieces ps"

section \<open>Concrete inputs\<close>

text \<open>A network that gives every request the same answer, with nothing issued so far.\<close>

definition example_env :: "(thrown + nat response) \<Rightarrow> nat env" where
  "example_env answer =
     \<lparr>NEXT_PUBLIC_LEGAL_API_URL = None, respond = (\<lambda>rq. answer), issued = []\<rparr>"

definition not_found_response :: "nat response" where
  "not_found_response =
     \<lparr>res_ok = False, res_status = 404, res_statusText = js ''Not Found'',
      res_text = Inr (js ''no such template''), res_json = Inl (Error (js ''Unexpected token''))\<rparr>"

definition ok_response :: "nat response" where
  "ok_response =
     \<lparr>res_ok = True, res_status = 200, res_statusText = js ''OK'',
      res_text = Inr (js ''7''), res_json = Inr 7\<rparr>"

text \<open>A page that already shows a result, with the given document in the store.\<close>

definition example_page :: "jsstring \<Rightarrow> nat page" where
  "example_page doc =
     \<lparr>store = \<lparr>document = doc, language = js ''en'', templateId = js ''nda'',
               result = Some \<lparr>result_type = risk_type, result_data = 3\<rparr>, loading = False\<rparr>,
      activeTab = analyze_tab, error = None\<rparr>"

definition example_document :: "uuid \<Rightarrow> uuid \<Rightarrow> documents_row" where
  "example_document i u =
    \<lparr>doc_id = i, doc_user_id = Some u, doc_title = ''Lease'', doc_type = ''contract'',
     doc_content_hash = None, doc_word_count = Some 1240, doc_page_count = Some 3,
     doc_language = Some ''en'', doc_created_at = None\<rparr>"

definition example_analysis :: "uuid \<Rightarrow> uuid option \<Rightarrow> analysis_results_row" where
  "example_analysis i d =
    \<lparr>ar_id = i, ar_document_id = d, ar_analysis_type = ''risk'', ar_risk_level = Some ''high'',
     ar_issues_found = Some 0, ar_results = Some ''{}'', ar_created_at = None\<rparr>"

definition example_clause :: "uuid \<Rightarrow> uuid option \<Rightarrow> clauses_row" where
  "example_clause i d =
    \<lparr>cl_id = i, cl_document_id = d, cl_clause_type = ''Jurisdiction'', cl_clause_text = ''...'',
     cl_risk_score = Some 0.2, cl_position_start = Some 0, cl_position_end = Some 3\<rparr>"

definition example_database :: database where
  "example_database =
    \<lparr>auth_users = [1, 2],
     documents = [example_document 10 1, example_document 11 2],
     analysis_results = [example_analysis 20 (Some 10), example_analysis 21 (Some 11),
                         example_analysis 22 None],
     clauses = [example_clause 30 (Some 10), example_clause 31 (Some 10),
                example_clause 32 (Some 11)]\<rparr>"

text \<open>
  A configuration of the engine: one clause per sentence (a sentence ends at a full
  stop), a clause is a liability clause when it contains a capital L, liability clauses
  have base weight 0.8 and all others 0, and the NDA template has the four required
  variables of the documented request.
\<close>

fun sentences :: "nat \<Rightarrow> jsstring \<Rightarrow> jsstring \<Rightarrow> (jsstring \<times> nat \<times> nat) list" where
  "sentences start acc [] = (if acc = [] then [] else [(rev acc, start, start + length acc)])"
| "sentences start acc (c # cs) =
    (if c = 46 then (rev (c # acc), start, start + length acc + 1)
                     # sentences (start + length acc + 1) [] cs
     else sentences start (c # acc) cs)"

definition example_template :: "jsstring \<Rightarrow> template" where
  "example_template i =
    (if i = js ''nda'' then
       \<lparr>template_id = i, template_name = js ''Non-Disclosure Agreement'',
        template_description = js ''...'',
        template_body = js ''Between {{party_a}} and {{party_b}}, from {{effective_date}}, under {{jurisdiction}} law. {{party_a}} signs.'',
        required_variables = [js ''party_a'', js ''party_b'', js ''effective_date'', js ''jurisdiction''],
        language_support = [js ''en'', js ''ja'', js ''de'']\<rparr>
     else
       \<lparr>template_id = i, template_name = i, template_description = [],
        template_body = [], required_variables = [], language_support = [js ''en'']\<rparr>)"

definition example_weight :: "factor \<Rightarrow> real" where
  "example_weight f =
    (case f of
       Liability \<Rightarrow> 0.30 | Indemnification \<Rightarrow> 0.25 | IP_Assignment \<Rightarrow> 0.15
     | Termination \<Rightarrow> 0.10 | Confidentiality \<Rightarrow> 0.10 | Jurisdiction \<Rightarrow> 0.10)"

definition example_configuration :: configuration where
  "example_configuration =
    \<lparr>normalize = (\<lambda>d. d),
     detect_language = (\<lambda>d. js ''en''),
     boundaries = (\<lambda>lang d. sentences 0 [] d),
     classify = (\<lambda>lang t. if 76 \<in> set t then js ''Liability'' else js ''Other''),
     base_weight = (\<lambda>ty. if ty = js ''Liability'' then 0.8 else 0),
     local_signals = (\<lambda>lang t. 0),
     issue_rules = (\<lambda>lang cs. []),
     factor_of = (\<lambda>ty. if ty = js ''Liability'' then Liability else Jurisdiction),
     factor_weights = Abs_weights example_weight,
     factor_text = (\<lambda>f. []),
     recommendation_for = (\<lambda>f. js ''Review this clause.''),
     trigger = 0.5,
     template_of = example_template\<rparr>"

text \<open>The clauses of the document \<open>L. ok.\<close> under that configuration.\<close>

definition example_clause_list :: "clause list" where
  "example_clause_list =
     [\<lparr>clause_id = js ''clause-001'', clause_text = js ''L.'', clause_type = js ''Liability'',
       clause_risk_level = Critical, clause_risk_score = 0.8, clause_span = (0, 2)\<rparr>,
      \<lparr>clause_id = js ''clause-002'', clause_text = js '' ok.'', clause_type = js ''Other'',
       clause_risk_level = Low, clause_risk_score = 0, clause_span = (2, 6)\<rparr>]"

text \<open>The body of the example NDA template, part by part.\<close>

definition example_nda_parts :: "part list" where
  "example_nda_parts =
    [Text (js ''Between ''), Variable (js ''party_a''), Text (js '' and ''),
     Variable (js ''party_b''), Text (js '', from ''), Variable (js ''effective_date''),
     Text (js '', under ''), Variable (js ''jurisdiction''), Text (js '' law. ''),
     Variable (js ''party_a''), Text (js '' signs.'')]"

section \<open>Properties of the console and the client\<close>

text \<open>
  C1. The level that \<open>RiskBadge\<close> derives from a score follows the fixed thresholds with
  inclusive lower bounds: below 0.3 low, from 0.3 below 0.5 medium, from 0.5 below 0.7
  high, from 0.7 critical. It is the mapping \<open>level\<close> of the specification, and a
  function of the score alone: the badge of a document never disagrees with the score it
  shows.
\<close>

theorem RiskBadge_level_thresholds:
  "(s < 0.3 \<longrightarrow> RiskBadge_level s = Low) \<and>
   (0.3 \<le> s \<and> s < 0.5 \<longrightarrow> RiskBadge_level s = Medium) \<and>
   (0.5 \<le> s \<and> s < 0.7 \<longrightarrow> RiskBadge_level s = High) \<and>
   (0.7 \<le> s \<longrightarrow> RiskBadge_level s = Critical) \<and>
   RiskBadge_level s = level s"
  by (simp add: RiskBadge_level_def level_def)

theorem RiskBadge_level_thresholds_witness:
  "RiskBadge_level 0 = Low \<and> RiskBadge_level 0.29 = Low \<and>
   RiskBadge_level 0.3 = Medium \<and> RiskBadge_level 0.49 = Medium \<and>
   RiskBadge_level 0.5 = High \<and> RiskBadge_level 0.69 = High \<and>
   RiskBadge_level 0.7 = Critical \<and> RiskBadge_level 1 = Critical"
  using RiskBadge_level_thresholds [of "0"] RiskBadge_level_thresholds [of "0.29"]
    RiskBadge_level_thresholds [of "0.3"] RiskBadge_level_thresholds [of "0.49"]
    RiskBadge_level_thresholds [of "0.5"] RiskBadge_level_thresholds [of "0.69"]
    RiskBadge_level_thresholds [of "0.7"] RiskBadge_level_thresholds [of "1"]
  by simp

subsection \<open>The request helper\<close>

lemma request_fetch_rejects:
  "respond e (built_request m path body e) = Inl ex \<Longrightarrow>
   request m path body e = (Inl ex, e\<lparr>issued := issued e @ [built_request m path body e]\<rparr>)"
  by (simp add: request_def fetch_def built_request_def)

lemma request_issues_one:
  "issued (snd (request m path body e)) = issued e @ [built_request m path body e]"
  by (simp add: request_def fetch_def built_request_def Let_def split: sum.splits)

lemma legalClient_operations:
  "legalClient_analyze req = request POST (js ''/api/v1/legal/analyze'') (Some req)"
  "legalClient_compile req = request POST (js ''/api/v1/legal/compile'') (Some req)"
  "legalClient_templates = request GET (js ''/api/v1/legal/templates'') None"
  "legalClient_riskScore req = request POST (js ''/api/v1/legal/risk-score'') (Some req)"
  by (simp_all add: legalClient_analyze_def legalClient_compile_def legalClient_templates_def
      legalClient_riskScore_def)

text \<open>
  C9. For the response \<open>res\<close> that \<open>fetch\<close> resolves to: when \<open>res.ok\<close> is false the helper
  throws an \<open>Error\<close> whose message is the status code, a space and the status text,
  followed by a colon, a space and the body text when that text is not empty (and by
  nothing when it is empty or cannot be read); when \<open>res.ok\<close> is true the helper settles as
  \<open>res.json()\<close> does; and whatever the helper returns is the whole parsed body of an ok
  response. Every operation of \<open>legalClient\<close> is one call of the helper.
\<close>

theorem request_throws_or_returns_parsed_body:
  assumes "respond e (built_request m path body e) = Inr res"
  shows "(\<not> res_ok res \<longrightarrow>
            (\<exists>msg. fst (request m path body e) = Inl (Error msg) \<and>
                   prefix (decimal (res_status res) @ js '' '' @ res_statusText res) msg \<and>
                   msg = decimal (res_status res) @ js '' '' @ res_statusText res @
                         (case res_text res of
                            Inl _ \<Rightarrow> []
                          | Inr t \<Rightarrow> if t = [] then [] else js '': '' @ t))) \<and>
         (res_ok res \<longrightarrow> fst (request m path body e) = res_json res) \<and>
         (\<forall>v. fst (request m path body e) = Inr v \<longrightarrow> res_ok res \<and> res_json res = Inr v)"
  using assms
  by (auto simp: request_def fetch_def built_request_def Let_def split: sum.splits)

theorem request_throws_or_returns_parsed_body_witness:
  "fst (request GET (js ''/api/v1/legal/templates'') None (example_env (Inr not_found_response)))
     = Inl (Error (js ''404 Not Found: no such template'')) \<and>
   fst (request GET (js ''/api/v1/legal/templates'') None (example_env (Inr ok_response)))
     = Inr 7"
  using request_throws_or_returns_parsed_body
     [of "example_env (Inr not_found_response)" GET "js ''/api/v1/legal/templates''" None not_found_response]
    request_throws_or_returns_parsed_body
     [of "example_env (Inr ok_response)" GET "js ''/api/v1/legal/templates''" None ok_response]
  by (simp add: example_env_def not_found_response_def ok_response_def decimal.simps js_def)

lemma example_call_fails:
  "fst (request m path body (example_env (Inr not_found_response))) =
     Inl (Error (js ''404 Not Found: no such template''))"
  by (simp add: request_def fetch_def example_env_def not_found_response_def decimal.simps js_def)

lemma example_call_succeeds:
  "fst (request m path body (example_env (Inr ok_response))) = Inr 7"
  by (simp add: request_def fetch_def example_env_def ok_response_def)

lemma example_call_rejected:
  "fst (request m path body (example_env (Inl NonError))) = Inl NonError"
  by (simp add: request_def fetch_def example_env_def)

subsection \<open>The action handlers\<close>

lemma trim_example: "trim (js ''  Lease  '') = js ''Lease''"
  by (simp add: trim_def js_def isWhiteSpace_def)

lemma handleAnalyze_after_call:
  assumes "trim (document (store p)) \<noteq> []"
    and "legalClient_analyze (AnalyzeRequest (document (store p)) (language (store p))) e = (r, e')"
  shows "handleAnalyze p e =
     ((case r of
         Inr res \<Rightarrow> p\<lparr>store := (store p)\<lparr>result := Some \<lparr>result_type = analyze_type, result_data = res\<rparr>,
                                        loading := False\<rparr>, error := None\<rparr>
       | Inl ex \<Rightarrow> p\<lparr>store := (store p)\<lparr>loading := False\<rparr>,
                     error := Some (failure_message (js ''Analysis failed.'') ex)\<rparr>), e')"
  using assms
  by (simp add: handleAnalyze_def setLoading_def setResult_def split: sum.splits)

lemma handleRiskScore_after_call:
  assumes "trim (document (store p)) \<noteq> []"
    and "legalClient_riskScore (RiskRequest (document (store p))) e = (r, e')"
  shows "handleRiskScore p e =
     ((case r of
         Inr res \<Rightarrow> p\<lparr>store := (store p)\<lparr>result := Some \<lparr>result_type = risk_type, result_data = res\<rparr>,
                                        loading := False\<rparr>, error := None\<rparr>
       | Inl ex \<Rightarrow> p\<lparr>store := (store p)\<lparr>loading := False\<rparr>,
                     error := Some (failure_message (js ''Risk scoring failed.'') ex)\<rparr>), e')"
  using assms
  by (simp add: handleRiskScore_def setLoading_def setResult_def split: sum.splits)

lemma handleCompile_after_call:
  assumes "templateId (store p) \<noteq> []"
    and "legalClient_compile (CompileRequest (templateId (store p)) Map.empty) e = (r, e')"
  shows "handleCompile p e =
     ((case r of
         Inr res \<Rightarrow> p\<lparr>store := (store p)\<lparr>result := Some \<lparr>result_type = compile_type, result_data = res\<rparr>,
                                        loading := False\<rparr>, error := None\<rparr>
       | Inl ex \<Rightarrow> p\<lparr>store := (store p)\<lparr>loading := False\<rparr>,
                     error := Some (failure_message (js ''Compilation failed.'') ex)\<rparr>), e')"
  using assms
  by (simp add: handleCompile_def setLoading_def setResult_def split: sum.splits)

text \<open>
  C10. Once the guard of a handler has let the client call through, the handler ends with
  \<open>loading = false\<close> whether the call returns or throws; when the call throws, the stored
  result is the one from before and \<open>error\<close> is the message of the thrown \<open>Error\<close> (the
  fallback text for any other thrown value); the stored result is replaced only when the
  call returns.
\<close>

theorem handlers_clear_loading:
  "(trim (document (store p)) \<noteq> [] \<longrightarrow>
      settled analyze_type (js ''Analysis failed.'')
        (fst (legalClient_analyze (AnalyzeRequest (document (store p)) (language (store p))) e))
        p (fst (handleAnalyze p e))) \<and>
   (trim (document (store p)) \<noteq> [] \<longrightarrow>
      settled risk_type (js ''Risk scoring failed.'')
        (fst (legalClient_riskScore (RiskRequest (document (store p))) e))
        p (fst (handleRiskScore p e))) \<and>
   (templateId (store p) \<noteq> [] \<longrightarrow>
      settled compile_type (js ''Compilation failed.'')
        (fst (legalClient_compile (CompileRequest (templateId (store p)) Map.empty) e))
        p (fst (handleCompile p e)))"
proof (intro conjI impI)
  assume g: "trim (document (store p)) \<noteq> []"
  obtain r e' where c: "legalClient_analyze (AnalyzeRequest (document (store p)) (language (store p))) e = (r, e')"
    by (cases "legalClient_analyze (AnalyzeRequest (document (store p)) (language (store p))) e")
  show "settled analyze_type (js ''Analysis failed.'')
        (fst (legalClient_analyze (AnalyzeRequest (document (store p)) (language (store p))) e))
        p (fst (handleAnalyze p e))"
    by (simp add: handleAnalyze_after_call [OF g c] c settled_def split: sum.splits)
next
  assume g: "trim (document (store p)) \<noteq> []"
  obtain r e' where c: "legalClient_riskScore (RiskRequest (document (store p))) e = (r, e')"
    by (cases "legalClient_riskScore (RiskRequest (document (store p))) e")
  show "settled risk_type (js ''Risk scoring failed.'')
        (fst (legalClient_riskScore (RiskRequest (document (store p))) e))
        p (fst (handleRiskScore p e))"
    by (simp add: handleRiskScore_after_call [OF g c] c settled_def split: sum.splits)
next
  assume g: "templateId (store p) \<noteq> []"
  obtain r e' where c: "legalClient_compile (CompileRequest (templateId (store p)) Map.empty) e = (r, e')"
    by (cases "legalClient_compile (CompileRequest (templateId (store p)) Map.empty) e")
  show "settled compile_type (js ''Compilation failed.'')
        (fst (legalClient_compile (CompileRequest (templateId (store p)) Map.empty) e))
        p (fst (handleCompile p e))"
    by (simp add: handleCompile_after_call [OF g c] c settled_def split: sum.splits)
qed

theorem handlers_clear_loading_witness:
  "loading (store (fst (handleAnalyze (example_page (js ''  Lease  '')) (example_env (Inr not_found_response))))) = False \<and>
   result (store (fst (handleAnalyze (example_page (js ''  Lease  '')) (example_env (Inr not_found_response)))))
     = Some \<lparr>result_type = risk_type, result_data = 3\<rparr> \<and>
   error (fst (handleAnalyze (example_page (js ''  Lease  '')) (example_env (Inr not_found_response))))
     = Some (js ''404 Not Found: no such template'') \<and>
   loading (store (fst (handleRiskScore (example_page (js ''  Lease  '')) (example_env (Inr ok_response))))) = False \<and>
   result (store (fst (handleRiskScore (example_page (js ''  Lease  '')) (example_env (Inr ok_response)))))
     = Some \<lparr>result_type = risk_type, result_data = 7\<rparr> \<and>
   loading (store (fst (handleCompile (example_page (js ''  Lease  '')) (example_env (Inl NonError))))) = False \<and>
   error (fst (handleCompile (example_page (js ''  Lease  '')) (example_env (Inl NonError))))
     = Some (js ''Compilation failed.'')"
proof -
  have doc: "trim (document (store (example_page (js ''  Lease  '')))) \<noteq> []"
    by (simp add: example_page_def trim_example) (simp add: js_def)
  have tid: "templateId (store (example_page (js ''  Lease  ''))) \<noteq> []"
    by (simp add: example_page_def js_def)
  from handlers_clear_loading [of "example_page (js ''  Lease  '')" "example_env (Inr not_found_response)"]
    handlers_clear_loading [of "example_page (js ''  Lease  '')" "example_env (Inr ok_response)"]
    handlers_clear_loading [of "example_page (js ''  Lease  '')" "example_env (Inl NonError)"]
    doc tid
  show ?thesis
    by (simp add: settled_def legalClient_analyze_def legalClient_riskScore_def legalClient_compile_def
        example_call_fails example_call_succeeds example_call_rejected failure_message_def)
      (simp add: example_page_def)
qed

text \<open>The console compiles a template with the empty variable map.\<close>

lemma handleCompile_sends_empty_variables:
  assumes "templateId (store p) \<noteq> []"
  shows "issued (snd (handleCompile p e)) = issued e @
     [built_request POST (js ''/api/v1/legal/compile'')
        (Some (CompileRequest (templateId (store p)) Map.empty)) e]"
proof -
  obtain r e' where c: "legalClient_compile (CompileRequest (templateId (store p)) Map.empty) e = (r, e')"
    by (cases "legalClient_compile (CompileRequest (templateId (store p)) Map.empty) e")
  from handleCompile_after_call [OF assms c] have "snd (handleCompile p e) = e'"
    by simp
  moreover from c have "e' = snd (request POST (js ''/api/v1/legal/compile'')
        (Some (CompileRequest (templateId (store p)) Map.empty)) e)"
    by (simp add: legalClient_compile_def)
  ultimately show ?thesis
    by (simp only: request_issues_one)
qed

section \<open>Properties of the storage schema\<close>

lemma delete_documents_removes_references:
  assumes "doc \<in> set (documents db)" and "P doc"
  shows "(\<forall>r \<in> set (analysis_results (delete_documents P db)). ar_document_id r \<noteq> Some (doc_id doc)) \<and>
         (\<forall>r \<in> set (clauses (delete_documents P db)). cl_document_id r \<noteq> Some (doc_id doc))"
  using assms by (auto simp: delete_documents_def cascades_def Let_def)

lemma resolves_after_delete:
  assumes "resolves db ref" and "\<not> cascades (map doc_id (filter P (documents db))) ref"
  shows "resolves (delete_documents P db) ref"
proof (cases ref)
  case None
  then show ?thesis by (simp add: resolves_def)
next
  case (Some d)
  from assms(1) Some obtain doc where doc: "doc \<in> set (documents db)" "doc_id doc = d"
    by (auto simp: resolves_def)
  from assms(2) Some doc have "\<not> P doc"
    by (auto simp: cascades_def)
  with doc have "doc \<in> set (documents (delete_documents P db))"
    by (simp add: delete_documents_def Let_def)
  with doc(2) Some show ?thesis
    by (auto simp: resolves_def)
qed

lemma delete_documents_preserves_references:
  assumes "references_resolve db"
  shows "references_resolve (delete_documents P db)"
  unfolding references_resolve_def
proof (intro conjI ballI)
  fix r assume "r \<in> set (analysis_results (delete_documents P db))"
  then have "r \<in> set (analysis_results db)"
    and "\<not> cascades (map doc_id (filter P (documents db))) (ar_document_id r)"
    by (simp_all add: delete_documents_def Let_def)
  with assms show "resolves (delete_documents P db) (ar_document_id r)"
    by (simp add: references_resolve_def resolves_after_delete)
next
  fix r assume "r \<in> set (clauses (delete_documents P db))"
  then have "r \<in> set (clauses db)"
    and "\<not> cascades (map doc_id (filter P (documents db))) (cl_document_id r)"
    by (simp_all add: delete_documents_def Let_def)
  with assms show "resolves (delete_documents P db) (cl_document_id r)"
    by (simp add: references_resolve_def resolves_after_delete)
qed

lemma resolves_users:
  "resolves (db\<lparr>auth_users := us\<rparr>) ref = resolves db ref"
  by (simp add: resolves_def split: option.splits)

lemma references_resolve_users:
  "references_resolve (db\<lparr>auth_users := us\<rparr>) = references_resolve db"
  by (simp add: references_resolve_def resolves_users)

lemma delete_documents_keeps_other_rows:
  "r \<in> set (analysis_results db) \<Longrightarrow> \<not> cascades (map doc_id (filter P (documents db))) (ar_document_id r)
    \<Longrightarrow> r \<in> set (analysis_results (delete_documents P db))"
  by (simp add: delete_documents_def Let_def)

text \<open>
  C8. Deleting the document row with identifier \<open>d\<close> removes every \<open>analysis_results\<close> row
  and every \<open>clauses\<close> row whose \<open>document_id\<close> is \<open>d\<close>; and when every reference resolved
  before a removal (what the foreign keys maintain), every reference resolves after it,
  whether the document was deleted directly or through the cascade from its user.
\<close>

theorem document_delete_cascades:
  "(d \<in> doc_id ` set (documents db) \<longrightarrow>
      (\<forall>r \<in> set (analysis_results (delete_document d db)). ar_document_id r \<noteq> Some d) \<and>
      (\<forall>r \<in> set (clauses (delete_document d db)). cl_document_id r \<noteq> Some d)) \<and>
   (references_resolve db \<longrightarrow>
      references_resolve (delete_document d db) \<and> references_resolve (delete_user u db))"
proof (intro conjI impI)
  assume "d \<in> doc_id ` set (documents db)"
  then obtain doc where doc: "doc \<in> set (documents db)" "doc_id doc = d"
    by auto
  from delete_documents_removes_references [of doc db "\<lambda>r. doc_id r = d"] doc
  show "\<forall>r \<in> set (analysis_results (delete_document d db)). ar_document_id r \<noteq> Some d"
    and "\<forall>r \<in> set (clauses (delete_document d db)). cl_document_id r \<noteq> Some d"
    by (simp_all add: delete_document_def)
next
  assume "references_resolve db"
  then show "references_resolve (delete_document d db)"
    by (simp add: delete_document_def delete_documents_preserves_references)
next
  assume "references_resolve db"
  then show "references_resolve (delete_user u db)"
    by (simp add: delete_user_def references_resolve_users delete_documents_preserves_references)
qed

lemma example_database_resolves: "references_resolve example_database"
  by (simp add: references_resolve_def resolves_def example_database_def
      example_document_def example_analysis_def example_clause_def)

lemma example_delete:
  "delete_document 10 example_database =
     \<lparr>auth_users = [1, 2],
      documents = [example_document 11 2],
      analysis_results = [example_analysis 21 (Some 11), example_analysis 22 None],
      clauses = [example_clause 32 (Some 11)]\<rparr>"
  by (simp add: delete_document_def delete_documents_def cascades_def example_database_def
      example_document_def example_analysis_def example_clause_def)

theorem document_delete_cascades_witness:
  "map ar_document_id (analysis_results (delete_document 10 example_database)) = [Some 11, None] \<and>
   map cl_document_id (clauses (delete_document 10 example_database)) = [Some 11] \<and>
   references_resolve (delete_document 10 example_database) \<and>
   references_resolve (delete_user 1 example_database)"
  using document_delete_cascades [of 10 example_database 1] example_database_resolves
  by (simp add: example_delete example_analysis_def example_clause_def)

section \<open>Properties of the modelled engine\<close>

lemma find_by_id:
  "i \<in> set xs \<Longrightarrow>
   find (\<lambda>t. template_id t = i) (map (\<lambda>j. (f j)\<lparr>template_id := j\<rparr>) xs) = Some ((f i)\<lparr>template_id := i\<rparr>)"
  by (induction xs) auto

lemma find_by_id_none:
  "i \<notin> set xs \<Longrightarrow> find (\<lambda>t. template_id t = i) (map (\<lambda>j. (f j)\<lparr>template_id := j\<rparr>) xs) = None"
  by (induction xs) auto

lemma lookup_known:
  "i \<in> set template_ids \<Longrightarrow> lookup_template cfg i = Inr ((template_of cfg i)\<lparr>template_id := i\<rparr>)"
  by (simp add: lookup_template_def registry_def find_by_id)

lemma lookup_unknown:
  "i \<notin> set template_ids \<Longrightarrow> lookup_template cfg i = Inl TemplateNotFound"
  by (simp add: lookup_template_def registry_def find_by_id_none)

lemma scan_placeholder_shape:
  assumes "c = 123" and "take 1 cs = [123]"
    and "take 2 (dropWhile is_name_char (drop 1 cs)) = [125, 125]"
  shows "c # cs = [123, 123] @ takeWhile is_name_char (drop 1 cs) @ [125, 125]
                   @ drop 2 (dropWhile is_name_char (drop 1 cs))"
proof -
  have "cs = take 1 cs @ drop 1 cs"
    by simp
  with assms(2) have cs: "cs = 123 # drop 1 cs"
    by simp
  have "drop 1 cs = takeWhile is_name_char (drop 1 cs) @ dropWhile is_name_char (drop 1 cs)"
    by simp
  moreover have "dropWhile is_name_char (drop 1 cs)
      = take 2 (dropWhile is_name_char (drop 1 cs)) @ drop 2 (dropWhile is_name_char (drop 1 cs))"
    by simp
  ultimately have "drop 1 cs = takeWhile is_name_char (drop 1 cs) @ [125, 125]
      @ drop 2 (dropWhile is_name_char (drop 1 cs))"
    using assms(3) by metis
  with cs assms(1) show ?thesis
    by (metis append_Cons append_Nil)
qed

lemma substitute_verbatim:
  "(\<forall>n \<in> set (placeholders (scan b)). vars n = None) \<Longrightarrow> substitute vars b = b"
  unfolding substitute_def
proof (induction b rule: scan.induct)
  case 1
  show ?case by (simp add: scan.simps)
next
  case (2 c cs)
  show ?case
  proof (cases "c = 123 \<and> take 1 cs = [123] \<and>
        takeWhile is_name_char (drop 1 cs) \<noteq> [] \<and>
        take 2 (dropWhile is_name_char (drop 1 cs)) = [125, 125]")
    case True
    then have sc: "scan (c # cs) = Placeholder (takeWhile is_name_char (drop 1 cs))
            # scan (drop 2 (dropWhile is_name_char (drop 1 cs)))"
      by (subst scan.simps) simp
    from "2.prems" sc have none: "vars (takeWhile is_name_char (drop 1 cs)) = None"
      and rest: "\<forall>n \<in> set (placeholders (scan (drop 2 (dropWhile is_name_char (drop 1 cs))))). vars n = None"
      by simp_all
    from "2.IH"(1) True rest
    have ih: "concat (map (render vars) (scan (drop 2 (dropWhile is_name_char (drop 1 cs)))))
        = drop 2 (dropWhile is_name_char (drop 1 cs))"
      by simp
    from True have shape: "c # cs = [123, 123] @ takeWhile is_name_char (drop 1 cs) @ [125, 125]
                   @ drop 2 (dropWhile is_name_char (drop 1 cs))"
      by (intro scan_placeholder_shape) simp_all
    have "concat (map (render vars) (scan (c # cs)))
        = [123, 123] @ takeWhile is_name_char (drop 1 cs) @ [125, 125]
          @ drop 2 (dropWhile is_name_char (drop 1 cs))"
      using none ih by (simp add: sc)
    with shape show ?thesis by simp
  next
    case False
    then have sc: "scan (c # cs) = Literal c # scan cs"
      by (subst scan.simps) auto
    with "2.prems" have "\<forall>n \<in> set (placeholders (scan cs)). vars n = None"
      by simp
    with "2.IH"(2) False have "concat (map (render vars) (scan cs)) = cs"
      by blast
    then show ?thesis
      by (simp add: sc)
  qed
qed


lemma make_clause_level:
  "clause_risk_level (make_clause cfg lang seg) = level (clause_risk_score (make_clause cfg lang seg))"
  by (cases seg) (simp add: make_clause_def)

lemma score_clauses_level:
  "c \<in> set (score_clauses cfg lang text) \<Longrightarrow> clause_risk_level c = level (clause_risk_score c)"
  by (auto simp: score_clauses_def make_clause_level)

lemma score_clauses_range:
  "c \<in> set (score_clauses cfg lang text) \<Longrightarrow> 0 \<le> clause_risk_score c \<and> clause_risk_score c \<le> 1"
  by (auto simp: score_clauses_def make_clause_def score_clause_def clamp01_def)

lemma score_clauses_nonempty: "score_clauses cfg lang text \<noteq> []"
  by (simp add: score_clauses_def segments_def enumerate_eq_zip split: list.splits)

lemma level_Critical: "level s = Critical \<longleftrightarrow> 0.7 \<le> s"
  by (simp add: level_def)

lemma level_RiskBadge: "level s = RiskBadge_level s"
  by (simp add: level_def RiskBadge_level_def)

lemma analyze_accepts:
  "analyze cfg doc lang = Inr r \<Longrightarrow>
     lang \<in> set supported_languages \<and> trim doc \<noteq> [] \<and>
     analysis_clauses r = score_clauses cfg lang (normalize cfg doc) \<and>
     risk_score r = document_risk (analysis_clauses r)"
  by (auto simp: analyze_def Let_def split: if_splits)

lemma analyze_returns:
  "lang \<in> set supported_languages \<Longrightarrow> trim doc \<noteq> [] \<Longrightarrow> \<exists>r. analyze cfg doc lang = Inr r"
  by (simp add: analyze_def Let_def)

lemma riskScore_accepts:
  "riskScore cfg doc = Inr r \<Longrightarrow>
     trim doc \<noteq> [] \<and>
     risk_factors r = map (make_factor cfg
        (score_clauses cfg (detect_language cfg (normalize cfg doc)) (normalize cfg doc))) all_factors \<and>
     overall_score r = sum_list (map (\<lambda>f. rf_weight f * rf_score f) (risk_factors r)) \<and>
     overall_risk_level r = level (overall_score r)"
  by (auto simp: riskScore_def Let_def split: if_splits)

lemma applied_card:
  "length (filter P (remdups xs)) = card {n \<in> set xs. P n}"
proof -
  have "length (filter P (remdups xs)) = length (remdups (filter P xs))"
    by (simp add: remdups_filter)
  also have "\<dots> = card (set (filter P xs))"
    by (simp add: length_remdups_card_conv)
  finally show ?thesis by simp
qed

lemma compile_known:
  assumes "i \<in> set template_ids"
  shows "compile cfg i vars =
     Inr \<lparr>compiled_template_id = i,
          compiled_document = substitute vars (template_body (template_of cfg i)),
          variables_applied = length (filter (\<lambda>n. vars n \<noteq> None)
             (remdups (placeholders (scan (template_body (template_of cfg i)))))),
          missing_variables = filter (\<lambda>v. vars v = None) (required_variables (template_of cfg i))\<rparr>"
  by (simp add: compile_def lookup_known [OF assms])

lemma compile_unknown:
  "i \<notin> set template_ids \<Longrightarrow> compile cfg i vars = Inl TemplateNotFound"
  by (simp add: compile_def lookup_unknown)

lemma nda_known: "js ''nda'' \<in> set template_ids"
  by (simp add: template_ids_def)

subsection \<open>Template compilation\<close>

text \<open>
  The scanner against the template written part by part: it finds exactly the pieces of a
  well-formed template, so that compiling the source of the template gives the document
  the specification asks for, for every variable map.
\<close>

lemma scan_text:
  "123 \<notin> set t \<Longrightarrow> scan (t @ rest) = map Literal t @ scan rest"
proof (induction t)
  case Nil
  show ?case by simp
next
  case (Cons c t)
  then have "c \<noteq> 123" and "123 \<notin> set t"
    by auto
  moreover from \<open>c \<noteq> 123\<close> have "scan (c # t @ rest) = Literal c # scan (t @ rest)"
    by (subst scan.simps) simp
  ultimately show ?case
    using Cons.IH by simp
qed

lemma not_name_char_brace: "\<not> is_name_char 125"
  by (simp add: is_name_char_def)

lemma scan_variable:
  assumes "n \<noteq> []" and "list_all is_name_char n"
  shows "scan ([123, 123] @ n @ [125, 125] @ rest) = Placeholder n # scan rest"
proof -
  from assms(2) have all: "\<forall>c \<in> set n. is_name_char c"
    by (simp add: list_all_iff)
  then have tw: "takeWhile is_name_char (n @ 125 # 125 # rest) = n"
    by (simp add: takeWhile_append2 not_name_char_brace)
  from all have dw: "dropWhile is_name_char (n @ 125 # 125 # rest) = 125 # 125 # rest"
    by (simp add: dropWhile_append2 not_name_char_brace)
  have "scan (123 # 123 # n @ 125 # 125 # rest) = Placeholder n # scan rest"
    using assms(1) by (subst scan.simps) (simp add: tw dw)
  then show ?thesis by simp
qed

lemma scan_source: "well_formed ps \<Longrightarrow> scan (source ps) = pieces ps"
proof (induction ps rule: well_formed.induct)
  case 1
  show ?case by (simp add: scan.simps)
next
  case (2 t ps)
  then show ?case
    using scan_text [of t "source ps"] by simp
next
  case (3 n ps)
  then show ?case
    using scan_variable [of n "source ps"] by simp
qed

lemma render_pieces: "concat (map (render vars) (pieces ps)) = filled vars ps"
proof (induction ps rule: pieces.induct)
  case 1
  show ?case by simp
next
  case (2 t ps)
  have "concat (map (render vars) (map Literal t)) = t"
    by (induction t) simp_all
  with 2 show ?case by simp
next
  case (3 n ps)
  then show ?case by simp
qed

lemma placeholders_pieces: "placeholders (pieces ps) = variables ps"
proof (induction ps rule: pieces.induct)
  case 1
  show ?case by simp
next
  case (2 t ps)
  have "placeholders (map Literal t @ qs) = placeholders qs" for qs
    by (induction t) simp_all
  with 2 show ?case by simp
next
  case (3 n ps)
  then show ?case by simp
qed

lemma substitute_source:
  "well_formed ps \<Longrightarrow> substitute vars (source ps) = filled vars ps"
  by (simp add: substitute_def scan_source render_pieces)

lemma placeholders_source:
  "well_formed ps \<Longrightarrow> placeholders (scan (source ps)) = variables ps"
  by (simp add: scan_source placeholders_pieces)

lemma scan_reads_body: "concat (map (render Map.empty) (scan b)) = b"
  using substitute_verbatim [of b Map.empty] by (simp add: substitute_def)

text \<open>
  C2. For every identifier of the catalog and every variable map, \<open>compile\<close> returns a
  result and never an error. The document is the body read piece by piece, with every
  placeholder found in the map replaced by its value and every other piece, unresolved
  placeholders included, written back as it stands; for a body that is the source of a
  well-formed template it is the template filled in from the map. \<open>missing_variables\<close>
  is the list of the required variables that are not keys of the map, and
  \<open>variables_applied\<close> is the number of placeholders of the body that are keys of the map.
  With no placeholder in the map the document is the body itself and nothing is applied;
  so for the NDA template with four required variables and the empty map,
  \<open>variables_applied\<close> is 0 and \<open>missing_variables\<close> has length 4.
\<close>

theorem compile_never_rejects_missing_variables:
  assumes "i \<in> set template_ids"
  shows "(\<exists>r. compile cfg i vars = Inr r \<and>
            compiled_template_id r = i \<and>
            compiled_document r = substitute vars (template_body (template_of cfg i)) \<and>
            missing_variables r = filter (\<lambda>v. v \<notin> dom vars) (required_variables (template_of cfg i)) \<and>
            variables_applied r =
              card {n \<in> set (placeholders (scan (template_body (template_of cfg i)))). n \<in> dom vars} \<and>
            ((\<forall>n \<in> set (placeholders (scan (template_body (template_of cfg i)))). n \<notin> dom vars) \<longrightarrow>
               compiled_document r = template_body (template_of cfg i) \<and> variables_applied r = 0) \<and>
            compiled_document r =
              concat (map (\<lambda>p. case p of
                                Literal c \<Rightarrow> [c]
                              | Placeholder n \<Rightarrow>
                                  (case vars n of
                                     Some v \<Rightarrow> v
                                   | None \<Rightarrow> [123, 123] @ n @ [125, 125]))
                          (scan (template_body (template_of cfg i)))) \<and>
            template_body (template_of cfg i) =
              concat (map (\<lambda>p. case p of
                                Literal c \<Rightarrow> [c]
                              | Placeholder n \<Rightarrow> [123, 123] @ n @ [125, 125])
                          (scan (template_body (template_of cfg i)))) \<and>
            (\<forall>ps. well_formed ps \<and> template_body (template_of cfg i) = source ps \<longrightarrow>
               compiled_document r = filled vars ps \<and>
               variables_applied r = card {n \<in> set (variables ps). n \<in> dom vars})) \<and>
         (length (required_variables (template_of cfg (js ''nda''))) = 4 \<longrightarrow>
            (\<exists>r. compile cfg (js ''nda'') Map.empty = Inr r \<and>
                 variables_applied r = 0 \<and> length (missing_variables r) = 4 \<and>
                 compiled_document r = template_body (template_of cfg (js ''nda''))))"
proof (intro conjI impI)
  let ?t = "template_of cfg i"
  let ?r = "\<lparr>compiled_template_id = i,
          compiled_document = substitute vars (template_body ?t),
          variables_applied = length (filter (\<lambda>n. vars n \<noteq> None)
             (remdups (placeholders (scan (template_body ?t))))),
          missing_variables = filter (\<lambda>v. vars v = None) (required_variables ?t)\<rparr>"
  have c: "compile cfg i vars = Inr ?r"
    by (rule compile_known [OF assms])
  have applied: "variables_applied ?r = card {n \<in> set (placeholders (scan (template_body ?t))). n \<in> dom vars}"
    by (simp add: applied_card dom_def)
  have missing: "missing_variables ?r = filter (\<lambda>v. v \<notin> dom vars) (required_variables ?t)"
    by (simp add: dom_def)
  have verbatim: "compiled_document ?r = template_body ?t \<and> variables_applied ?r = 0"
    if "\<forall>n \<in> set (placeholders (scan (template_body ?t))). n \<notin> dom vars"
  proof -
    from that have none: "\<forall>n \<in> set (placeholders (scan (template_body ?t))). vars n = None"
      by (simp add: dom_def)
    then have "substitute vars (template_body ?t) = template_body ?t"
      by (rule substitute_verbatim)
    moreover from none have "filter (\<lambda>n. vars n \<noteq> None) (remdups (placeholders (scan (template_body ?t)))) = []"
      by (simp add: filter_empty_conv)
    ultimately show ?thesis by simp
  qed
  have render_case: "render w = (\<lambda>p. case p of
                                Literal c \<Rightarrow> [c]
                              | Placeholder n \<Rightarrow>
                                  (case w n of
                                     Some v \<Rightarrow> v
                                   | None \<Rightarrow> [123, 123] @ n @ [125, 125]))" for w
    by (rule ext) (simp split: piece.splits)
  have piecewise: "compiled_document ?r =
              concat (map (\<lambda>p. case p of
                                Literal c \<Rightarrow> [c]
                              | Placeholder n \<Rightarrow>
                                  (case vars n of
                                     Some v \<Rightarrow> v
                                   | None \<Rightarrow> [123, 123] @ n @ [125, 125]))
                          (scan (template_body ?t)))"
    by (simp add: substitute_def render_case [symmetric])
  have reads: "template_body ?t =
              concat (map (\<lambda>p. case p of
                                Literal c \<Rightarrow> [c]
                              | Placeholder n \<Rightarrow> [123, 123] @ n @ [125, 125])
                          (scan (template_body ?t)))"
  proof -
    have "render Map.empty = (\<lambda>p. case p of
                                Literal c \<Rightarrow> [c]
                              | Placeholder n \<Rightarrow> [123, 123] @ n @ [125, 125])"
      by (rule ext) (simp split: piece.splits)
    with scan_reads_body [of "template_body ?t"] show ?thesis
      by (simp only:)
  qed
  have parts: "compiled_document ?r = filled vars ps \<and>
               variables_applied ?r = card {n \<in> set (variables ps). n \<in> dom vars}"
    if "well_formed ps \<and> template_body ?t = source ps" for ps
    using that applied by (simp add: substitute_source placeholders_source)
  show "\<exists>r. compile cfg i vars = Inr r \<and>
            compiled_template_id r = i \<and>
            compiled_document r = substitute vars (template_body ?t) \<and>
            missing_variables r = filter (\<lambda>v. v \<notin> dom vars) (required_variables ?t) \<and>
            variables_applied r =
              card {n \<in> set (placeholders (scan (template_body ?t))). n \<in> dom vars} \<and>
            ((\<forall>n \<in> set (placeholders (scan (template_body ?t))). n \<notin> dom vars) \<longrightarrow>
               compiled_document r = template_body ?t \<and> variables_applied r = 0) \<and>
            compiled_document r =
              concat (map (\<lambda>p. case p of
                                Literal c \<Rightarrow> [c]
                              | Placeholder n \<Rightarrow>
                                  (case vars n of
                                     Some v \<Rightarrow> v
                                   | None \<Rightarrow> [123, 123] @ n @ [125, 125]))
                          (scan (template_body ?t))) \<and>
            template_body ?t =
              concat (map (\<lambda>p. case p of
                                Literal c \<Rightarrow> [c]
                              | Placeholder n \<Rightarrow> [123, 123] @ n @ [125, 125])
                          (scan (template_body ?t))) \<and>
            (\<forall>ps. well_formed ps \<and> template_body ?t = source ps \<longrightarrow>
               compiled_document r = filled vars ps \<and>
               variables_applied r = card {n \<in> set (variables ps). n \<in> dom vars})"
  proof (intro exI [of _ ?r] conjI allI impI)
    show "compile cfg i vars = Inr ?r" by (rule c)
    show "compiled_template_id ?r = i" by simp
    show "compiled_document ?r = substitute vars (template_body ?t)" by simp
    show "missing_variables ?r = filter (\<lambda>v. v \<notin> dom vars) (required_variables ?t)" by (rule missing)
    show "variables_applied ?r = card {n \<in> set (placeholders (scan (template_body ?t))). n \<in> dom vars}"
      by (rule applied)
  next
    assume "\<forall>n \<in> set (placeholders (scan (template_body ?t))). n \<notin> dom vars"
    from verbatim [OF this]
    show "compiled_document ?r = template_body ?t" and "variables_applied ?r = 0"
      by simp_all
  next
    show "compiled_document ?r =
              concat (map (\<lambda>p. case p of
                                Literal c \<Rightarrow> [c]
                              | Placeholder n \<Rightarrow>
                                  (case vars n of
                                     Some v \<Rightarrow> v
                                   | None \<Rightarrow> [123, 123] @ n @ [125, 125]))
                          (scan (template_body ?t)))"
      by (rule piecewise)
    show "template_body ?t =
              concat (map (\<lambda>p. case p of
                                Literal c \<Rightarrow> [c]
                              | Placeholder n \<Rightarrow> [123, 123] @ n @ [125, 125])
                          (scan (template_body ?t)))"
      by (rule reads)
  next
    fix ps assume "well_formed ps \<and> template_body ?t = source ps"
    from parts [OF this]
    show "compiled_document ?r = filled vars ps"
      and "variables_applied ?r = card {n \<in> set (variables ps). n \<in> dom vars}"
      by simp_all
  qed
next
  assume four: "length (required_variables (template_of cfg (js ''nda''))) = 4"
  have "substitute Map.empty (template_body (template_of cfg (js ''nda''))) = template_body (template_of cfg (js ''nda''))"
    by (rule substitute_verbatim) simp
  with four show "\<exists>r. compile cfg (js ''nda'') Map.empty = Inr r \<and>
                 variables_applied r = 0 \<and> length (missing_variables r) = 4 \<and>
                 compiled_document r = template_body (template_of cfg (js ''nda''))"
    by (simp add: compile_known [OF nda_known])
qed

lemma example_nda_body:
  "template_body (template_of example_configuration (js ''nda'')) = source example_nda_parts"
  by (simp add: example_configuration_def example_template_def example_nda_parts_def js_def)

lemma example_nda_required:
  "required_variables (template_of example_configuration (js ''nda'')) =
     [js ''party_a'', js ''party_b'', js ''effective_date'', js ''jurisdiction'']"
  by (simp add: example_configuration_def example_template_def)

lemma example_nda_well_formed: "well_formed example_nda_parts"
  by (simp add: example_nda_parts_def is_name_char_def js_def)

lemma example_nda_variables:
  "variables example_nda_parts =
     [js ''party_a'', js ''party_b'', js ''effective_date'', js ''jurisdiction'', js ''party_a'']"
  by (simp add: example_nda_parts_def)

lemma example_names_differ:
  "js ''party_a'' \<noteq> js ''party_b''" "js ''party_a'' \<noteq> js ''effective_date''"
  "js ''party_a'' \<noteq> js ''jurisdiction''" "js ''party_b'' \<noteq> js ''effective_date''"
  "js ''party_b'' \<noteq> js ''jurisdiction''" "js ''effective_date'' \<noteq> js ''jurisdiction''"
  by (simp_all add: js_def)

lemma example_filled_none:
  "filled Map.empty example_nda_parts =
     js ''Between {{party_a}} and {{party_b}}, from {{effective_date}}, under {{jurisdiction}} law. {{party_a}} signs.''"
  by (simp add: example_nda_parts_def) (simp add: js_def)

lemma example_filled_one:
  "filled [js ''party_a'' \<mapsto> js ''Acme''] example_nda_parts =
     js ''Between Acme and {{party_b}}, from {{effective_date}}, under {{jurisdiction}} law. Acme signs.''"
  by (simp add: example_nda_parts_def example_names_differ example_names_differ [symmetric])
     (simp add: js_def)

lemma example_filled_all:
  "filled [js ''party_a'' \<mapsto> js ''Acme Corp'', js ''party_b'' \<mapsto> js ''Beta Inc'',
           js ''effective_date'' \<mapsto> js ''2026-03-01'', js ''jurisdiction'' \<mapsto> js ''California'']
     example_nda_parts =
     js ''Between Acme Corp and Beta Inc, from 2026-03-01, under California law. Acme Corp signs.''"
  by (simp add: example_nda_parts_def example_names_differ example_names_differ [symmetric])
     (simp add: js_def)

lemma example_applied_none:
  "card {n \<in> set (variables example_nda_parts). n \<in> dom (Map.empty :: jsstring \<rightharpoonup> jsstring)} = 0"
  by simp

lemma example_missing_none:
  "filter (\<lambda>v. v \<notin> dom (Map.empty :: jsstring \<rightharpoonup> jsstring))
     [js ''party_a'', js ''party_b'', js ''effective_date'', js ''jurisdiction'']
   = [js ''party_a'', js ''party_b'', js ''effective_date'', js ''jurisdiction'']"
  by simp

lemma example_applied_one:
  "card {n \<in> set (variables example_nda_parts). n \<in> dom [js ''party_a'' \<mapsto> js ''Acme'']} = 1"
proof -
  have "{n \<in> set (variables example_nda_parts). n \<in> dom [js ''party_a'' \<mapsto> js ''Acme'']}
        = {js ''party_a''}"
    by (auto simp: example_nda_variables)
  then show ?thesis
    by (simp only: card.empty card.insert finite.emptyI empty_iff) simp
qed

lemma example_missing_one:
  "filter (\<lambda>v. v \<notin> dom [js ''party_a'' \<mapsto> js ''Acme''])
     [js ''party_a'', js ''party_b'', js ''effective_date'', js ''jurisdiction'']
   = [js ''party_b'', js ''effective_date'', js ''jurisdiction'']"
  by (simp add: example_names_differ example_names_differ [symmetric])

lemma dom_four: "dom [a \<mapsto> x, b \<mapsto> y, c \<mapsto> z, d \<mapsto> w] = {a, b, c, d}"
  by auto

lemma example_applied_all:
  "card {n \<in> set (variables example_nda_parts).
     n \<in> dom [js ''party_a'' \<mapsto> js ''Acme Corp'', js ''party_b'' \<mapsto> js ''Beta Inc'',
           js ''effective_date'' \<mapsto> js ''2026-03-01'', js ''jurisdiction'' \<mapsto> js ''California'']} = 4"
proof -
  have "{n \<in> set (variables example_nda_parts).
     n \<in> dom [js ''party_a'' \<mapsto> js ''Acme Corp'', js ''party_b'' \<mapsto> js ''Beta Inc'',
           js ''effective_date'' \<mapsto> js ''2026-03-01'', js ''jurisdiction'' \<mapsto> js ''California'']}
        = {js ''party_a'', js ''party_b'', js ''effective_date'', js ''jurisdiction''}"
    unfolding dom_four example_nda_variables by auto
  moreover have "card {js ''party_a'', js ''party_b'', js ''effective_date'', js ''jurisdiction''} = 4"
    by (simp add: example_names_differ)
  ultimately show ?thesis
    by (simp only:)
qed

lemma example_missing_all:
  "filter (\<lambda>v. v \<notin> dom [js ''party_a'' \<mapsto> js ''Acme Corp'', js ''party_b'' \<mapsto> js ''Beta Inc'',
           js ''effective_date'' \<mapsto> js ''2026-03-01'', js ''jurisdiction'' \<mapsto> js ''California''])
     [js ''party_a'', js ''party_b'', js ''effective_date'', js ''jurisdiction''] = []"
  unfolding dom_four by simp

theorem compile_never_rejects_missing_variables_witness:
  "(\<exists>r. compile example_configuration (js ''nda'') Map.empty = Inr r \<and>
        variables_applied r = 0 \<and>
        missing_variables r =
          [js ''party_a'', js ''party_b'', js ''effective_date'', js ''jurisdiction''] \<and>
        compiled_document r =
          js ''Between {{party_a}} and {{party_b}}, from {{effective_date}}, under {{jurisdiction}} law. {{party_a}} signs.'') \<and>
   (\<exists>r. compile example_configuration (js ''nda'') [js ''party_a'' \<mapsto> js ''Acme''] = Inr r \<and>
        variables_applied r = 1 \<and>
        missing_variables r = [js ''party_b'', js ''effective_date'', js ''jurisdiction''] \<and>
        compiled_document r =
          js ''Between Acme and {{party_b}}, from {{effective_date}}, under {{jurisdiction}} law. Acme signs.'') \<and>
   (\<exists>r. compile example_configuration (js ''nda'')
          [js ''party_a'' \<mapsto> js ''Acme Corp'', js ''party_b'' \<mapsto> js ''Beta Inc'',
           js ''effective_date'' \<mapsto> js ''2026-03-01'', js ''jurisdiction'' \<mapsto> js ''California''] = Inr r \<and>
        variables_applied r = 4 \<and>
        missing_variables r = [] \<and>
        compiled_document r =
          js ''Between Acme Corp and Beta Inc, from 2026-03-01, under California law. Acme Corp signs.'')"
proof -
  have use: "\<exists>r. compile example_configuration (js ''nda'') m = Inr r \<and>
      variables_applied r = k \<and> missing_variables r = ms \<and> compiled_document r = d"
    if k: "card {n \<in> set (variables example_nda_parts). n \<in> dom m} = k"
      and ms: "filter (\<lambda>v. v \<notin> dom m)
         [js ''party_a'', js ''party_b'', js ''effective_date'', js ''jurisdiction''] = ms"
      and d: "filled m example_nda_parts = d"
    for m k ms d
  proof -
    from compile_never_rejects_missing_variables [OF nda_known, of example_configuration m, THEN conjunct1]
    obtain r where c: "compile example_configuration (js ''nda'') m = Inr r"
      and mis: "missing_variables r = filter (\<lambda>v. v \<notin> dom m)
           (required_variables (template_of example_configuration (js ''nda'')))"
      and parts: "\<forall>ps. well_formed ps \<and>
           template_body (template_of example_configuration (js ''nda'')) = source ps \<longrightarrow>
           compiled_document r = filled m ps \<and>
           variables_applied r = card {n \<in> set (variables ps). n \<in> dom m}"
      by (elim exE conjE) (rule that; assumption)
    from parts [rule_format, of example_nda_parts] example_nda_well_formed example_nda_body
    have "compiled_document r = filled m example_nda_parts \<and>
          variables_applied r = card {n \<in> set (variables example_nda_parts). n \<in> dom m}"
      by (simp only:)
    with c mis show ?thesis
      by (intro exI [of _ r]) (simp only: example_nda_required k ms d)
  qed
  from use [OF example_applied_none example_missing_none example_filled_none]
    use [OF example_applied_one example_missing_one example_filled_one]
    use [OF example_applied_all example_missing_all example_filled_all]
  show ?thesis
    by (intro conjI)
qed

subsection \<open>Document risk\<close>

lemma critical_floor_raised:
  assumes "c \<in> set cs" and "clause_risk_level c = Critical"
  shows "critical_floor cs = 0.7"
  using assms by (auto simp: critical_floor_def)

text \<open>
  C3. For every document that \<open>analyze\<close> accepts, if one of the clauses of the result has
  a score of at least 0.7, the score of the document is at least 0.7, whatever the other
  clauses score; the score of the document is the maximum of the length-weighted average
  of the clause scores and the floor raised by a critical clause.
\<close>

theorem critical_clause_floors_document_risk:
  assumes "analyze cfg doc lang = Inr r"
    and "c \<in> set (analysis_clauses r)"
    and "0.7 \<le> clause_risk_score c"
  shows "0.7 \<le> risk_score r \<and>
         risk_score r = max (weighted_average (analysis_clauses r)) (critical_floor (analysis_clauses r))"
proof -
  from analyze_accepts [OF assms(1)]
  have cs: "analysis_clauses r = score_clauses cfg lang (normalize cfg doc)"
    and risk: "risk_score r = document_risk (analysis_clauses r)"
    by simp_all
  from assms(2) cs have "clause_risk_level c = level (clause_risk_score c)"
    by (simp add: score_clauses_level)
  with assms(3) have "clause_risk_level c = Critical"
    by (simp add: level_Critical)
  with assms(2) have "critical_floor (analysis_clauses r) = 0.7"
    by (rule critical_floor_raised)
  with risk show ?thesis
    by (simp add: document_risk_def)
qed

lemma example_trim: "trim (js ''L. ok.'') = js ''L. ok.''"
  by (simp add: trim_def isWhiteSpace_def js_def)

lemma example_words: "count_words False (js ''L. ok.'') = 2"
  by (simp add: isWhiteSpace_def js_def)

lemma example_segments:
  "segments example_configuration lang (js ''L. ok.'') = [(js ''L.'', 0, 2), (js '' ok.'', 2, 6)]"
  by (simp add: segments_def example_configuration_def js_def)

lemma example_ids:
  "ordinal_id ''clause-'' 0 = js ''clause-001''"
  "ordinal_id ''clause-'' (Suc 0) = js ''clause-002''"
  by (simp_all add: ordinal_id_def pad3_def decimal.simps js_def numeral_2_eq_2)

lemma example_scores:
  "score_clause example_configuration lang (js ''L.'') = 0.8"
  "score_clause example_configuration lang (js '' ok.'') = 0"
  "classify example_configuration lang (js ''L.'') = js ''Liability''"
  "classify example_configuration lang (js '' ok.'') = js ''Other''"
  by (simp_all add: score_clause_def clamp01_def example_configuration_def js_def)

lemma example_levels: "level (4 / 5) = Critical" "level 0 = Low"
  by (simp_all add: level_def)

lemma example_clauses:
  "score_clauses example_configuration lang (js ''L. ok.'') =
            [\<lparr>clause_id = js ''clause-001'', clause_text = js ''L.'', clause_type = js ''Liability'',
              clause_risk_level = Critical, clause_risk_score = 0.8, clause_span = (0, 2)\<rparr>,
             \<lparr>clause_id = js ''clause-002'', clause_text = js '' ok.'', clause_type = js ''Other'',
              clause_risk_level = Low, clause_risk_score = 0, clause_span = (2, 6)\<rparr>]"
  by (simp add: score_clauses_def example_segments enumerate_eq_zip make_clause_def
      example_ids example_scores example_levels)

lemma example_average: "weighted_average example_clause_list = 4 / 15"
  by (simp add: weighted_average_def example_clause_list_def js_def)

lemma example_floor: "critical_floor example_clause_list = 0.7"
  by (simp add: critical_floor_def example_clause_list_def)

lemma example_analysis:
  "analyze example_configuration (js ''L. ok.'') (js ''en'') =
     Inr \<lparr>risk_score = 0.7,
          analysis_clauses = example_clause_list,
          analysis_issues = [], analysis_language = js ''en'', word_count = 2\<rparr>"
proof -
  have lang: "js ''en'' \<in> set supported_languages"
    by (simp add: supported_languages_def)
  have doc: "trim (js ''L. ok.'') \<noteq> []"
    by (simp add: example_trim) (simp add: js_def)
  have norm: "normalize example_configuration (js ''L. ok.'') = js ''L. ok.''"
    and issues: "issue_rules example_configuration (js ''en'') example_clause_list = []"
    by (simp_all add: example_configuration_def)
  have cs: "score_clauses example_configuration (js ''en'') (js ''L. ok.'') = example_clause_list"
    by (simp only: example_clauses example_clause_list_def)
  have risk: "document_risk example_clause_list = 0.7"
    by (simp add: document_risk_def example_average example_floor)
  show ?thesis
    by (simp add: analyze_def lang doc norm cs issues risk example_words)
qed

theorem critical_clause_floors_document_risk_witness:
  "\<exists>r. analyze example_configuration (js ''L. ok.'') (js ''en'') = Inr r \<and>
       map clause_risk_score (analysis_clauses r) = [0.8, 0] \<and>
       weighted_average (analysis_clauses r) = 4 / 15 \<and>
       0.7 \<le> risk_score r"
proof -
  let ?r = "\<lparr>risk_score = 0.7, analysis_clauses = example_clause_list,
            analysis_issues = [], analysis_language = js ''en'', word_count = 2\<rparr>"
  have first: "hd example_clause_list \<in> set (analysis_clauses ?r)"
    and critical: "0.7 \<le> clause_risk_score (hd example_clause_list)"
    and scores: "map clause_risk_score example_clause_list = [0.8, 0]"
    by (simp_all add: example_clause_list_def)
  from critical_clause_floors_document_risk [OF example_analysis first critical]
  have "0.7 \<le> risk_score ?r" ..
  with example_analysis scores example_average show ?thesis
    by (intro exI [of _ ?r]) simp
qed

subsection \<open>Risk factors\<close>










subsection \<open>Input validation\<close>

text \<open>
  C5. For every text and every language code outside the supported set, \<open>analyze\<close> fails
  with \<open>UnsupportedLanguage\<close> and returns no result; the supported set is exactly
  \<open>en\<close>, \<open>ja\<close>, \<open>de\<close>, \<open>fr\<close>, which are also the codes the console offers in \<open>LANGUAGES\<close>.
\<close>

theorem analyze_rejects_unsupported_language:
  "(lang \<notin> set supported_languages \<longrightarrow> analyze cfg doc lang = Inl UnsupportedLanguage) \<and>
   set supported_languages = {js ''en'', js ''ja'', js ''de'', js ''fr''} \<and>
   map fst LANGUAGES = supported_languages"
  by (simp add: analyze_def supported_languages_def LANGUAGES_def)

theorem analyze_rejects_unsupported_language_witness:
  "analyze example_configuration (js ''L. ok.'') (js ''xx'') = Inl UnsupportedLanguage \<and>
   analyze example_configuration [] (js ''es'') = Inl UnsupportedLanguage"
  using analyze_rejects_unsupported_language [of "js ''xx''" example_configuration "js ''L. ok.''"]
    analyze_rejects_unsupported_language [of "js ''es''" example_configuration "[]"]
  by (simp add: js_def)

text \<open>
  The two failure sentences of section 4.1 collide at a blank text with an unsupported
  language code: no operation can answer \<open>UnsupportedLanguage\<close> for every text with an
  unsupported code and \<open>EmptyDocument\<close> for every blank text with any code. There the
  language check answers.
\<close>

lemma blank_and_unsupported_conflict:
  "\<not> (\<exists>f :: jsstring \<Rightarrow> jsstring \<Rightarrow> engine_error + AnalysisResult.
        (\<forall>doc lang. lang \<notin> set supported_languages \<longrightarrow> f doc lang = Inl UnsupportedLanguage) \<and>
        (\<forall>doc lang. trim doc = [] \<longrightarrow> f doc lang = Inl EmptyDocument))"
proof
  assume "\<exists>f :: jsstring \<Rightarrow> jsstring \<Rightarrow> engine_error + AnalysisResult.
        (\<forall>doc lang. lang \<notin> set supported_languages \<longrightarrow> f doc lang = Inl UnsupportedLanguage) \<and>
        (\<forall>doc lang. trim doc = [] \<longrightarrow> f doc lang = Inl EmptyDocument)"
  then obtain f :: "jsstring \<Rightarrow> jsstring \<Rightarrow> engine_error + AnalysisResult"
    where a: "\<forall>doc lang. lang \<notin> set supported_languages \<longrightarrow> f doc lang = Inl UnsupportedLanguage"
      and b: "\<forall>doc lang. trim doc = [] \<longrightarrow> f doc lang = Inl EmptyDocument"
    by blast
  have "js ''xx'' \<notin> set supported_languages"
    by (simp add: supported_languages_def js_def)
  with a have "f [] (js ''xx'') = Inl UnsupportedLanguage"
    by blast
  moreover from b have "f [] (js ''xx'') = Inl EmptyDocument"
    by (simp add: trim_def)
  ultimately show False
    by simp
qed

lemma blank_document_unsupported_language:
  "trim (js ''  '') = [] \<and>
   analyze example_configuration (js ''  '') (js ''xx'') = Inl UnsupportedLanguage"
  by (simp add: analyze_def supported_languages_def trim_def isWhiteSpace_def js_def)



subsection \<open>Template listing\<close>

text \<open>
  C7. \<open>listTemplates\<close> returns the seven templates \<open>nda\<close>, \<open>sla\<close>, \<open>dpa\<close>, \<open>tos\<close>,
  \<open>privacy\<close>, \<open>employment\<close>, \<open>license\<close>, in this order, with \<open>count = 7\<close>; it is a total
  function with no error result, and the identifiers are those of the console's
  \<open>TEMPLATES\<close>.
\<close>

theorem listTemplates_lists_seven:
  "map info_id (templates (listTemplates cfg)) =
     [js ''nda'', js ''sla'', js ''dpa'', js ''tos'', js ''privacy'', js ''employment'', js ''license''] \<and>
   length (templates (listTemplates cfg)) = 7 \<and>
   count (listTemplates cfg) = 7 \<and>
   map fst TEMPLATES = map info_id (templates (listTemplates cfg))"
  by (simp add: listTemplates_def registry_def template_ids_def template_info_def TEMPLATES_def comp_def)

theorem listTemplates_lists_seven_witness:
  "map info_id (templates (listTemplates example_configuration)) =
     [js ''nda'', js ''sla'', js ''dpa'', js ''tos'', js ''privacy'', js ''employment'', js ''license''] \<and>
   count (listTemplates example_configuration) = 7 \<and>
   map fst TEMPLATES = map info_id (templates (listTemplates example_configuration))"
  using listTemplates_lists_seven [of example_configuration]
  by simp

subsection \<open>Levels of the results\<close>

text \<open>
  Every clause of an analysis carries the level of its score, and a risk breakdown
  carries the level of its overall score, by the mapping that \<open>RiskBadge\<close> computes.
\<close>

lemma engine_levels_consistent:
  "(analyze cfg doc lang = Inr a \<longrightarrow>
      (\<forall>c \<in> set (analysis_clauses a). clause_risk_level c = RiskBadge_level (clause_risk_score c))) \<and>
   (riskScore cfg doc = Inr r \<longrightarrow> overall_risk_level r = RiskBadge_level (overall_score r))"
  using analyze_accepts [of cfg doc lang a] riskScore_accepts [of cfg doc r]
  by (auto simp: score_clauses_level level_RiskBadge [symmetric])

end
